theory Spec2Isabelle
  imports Complex_Main "HOL-Library.Multiset"
begin

section \<open>Data model (src/types/index.ts)\<close>

text \<open>
  Times of day are the \<^verbatim>\<open>"HH:MM"\<close> strings of the source. Calendar dates, which the
  source holds as \<^verbatim>\<open>"YYYY-MM-DD"\<close> strings and only ever compares for equality or
  advances by a number of days, are modelled by their day number. Hours (\<^verbatim>\<open>number\<close> in
  the source) are exact rationals; head counts and the two hour caps are naturals. The
  \<^verbatim>\<open>id\<close> fields of Shift and Schedule are labels derived from the date and the worker
  and take no part in any computation; they are left out.
\<close>

type_synonym date = int

datatype shift_type = Morning | Afternoon | Full

record Pharmacist =
  pharmacist_id :: string
  pharmacist_name :: string
  weeklyHours :: rat
  freeDay :: string
  freeSaturdayWeek :: "nat option"
  isActive :: bool
  fixedDayPatterns :: "(string \<times> string) list option"

record SubShift =
  sub_startTime :: string
  sub_endTime :: string

record FixedShiftPattern =
  pattern_id :: string
  pattern_name :: string
  morningShift :: SubShift
  afternoonShift :: SubShift

record StaffingRequirement =
  req_startTime :: string
  req_endTime :: string
  requiredPharmacists :: nat

record PharmacyRules =
  openingTime :: string
  closingTime :: string
  breakStartTime :: string
  breakEndTime :: string
  maxHoursPerShift :: nat
  maxHoursPerDay :: nat
  fixedShiftPatterns :: "FixedShiftPattern list option"
  staffingRequirements :: "StaffingRequirement list"

record Shift =
  pharmacistId :: string
  shift_date :: date
  startTime :: string
  endTime :: string
  shiftType :: shift_type
  isBreakTime :: bool
  patternId :: "string option"

record Schedule =
  weekStart :: date
  weekEnd :: date
  shifts :: "Shift list"
  warnings :: "(date \<times> string list) list option"

section \<open>Time utilities\<close>

text \<open>Decimal rendering of a natural number (\<^verbatim>\<open>Number.prototype.toString\<close>).\<close>

definition digit_char :: "nat \<Rightarrow> char" where
  "digit_char d = ''0123456789'' ! d"

fun nat_toString :: "nat \<Rightarrow> string" where
  "nat_toString n =
     (if n < 10 then [digit_char n] else nat_toString (n div 10) @ [digit_char (n mod 10)])"

declare nat_toString.simps [simp del]

text \<open>\<^verbatim>\<open>s.padStart(2, '0')\<close>\<close>

definition padStart2 :: "string \<Rightarrow> string" where
  "padStart2 s = replicate (2 - length s) (CHR ''0'') @ s"

text \<open>
  \<^verbatim>\<open>Number(s)\<close> on a string of decimal digits. (On other strings the source gets
  \<^verbatim>\<open>NaN\<close> or another number; those inputs are outside the model.)
\<close>

fun digit_index :: "char \<Rightarrow> string \<Rightarrow> nat" where
  "digit_index c [] = 0"
| "digit_index c (d # ds) = (if c = d then 0 else Suc (digit_index c ds))"

definition digit_val :: "char \<Rightarrow> nat" where
  "digit_val c = digit_index c ''0123456789''"

definition Number :: "string \<Rightarrow> nat" where
  "Number s = foldl (\<lambda>a c. a * 10 + digit_val c) 0 s"

text \<open>
  \<^verbatim>\<open>const [hours, minutes] = timeString.split(':').map(Number);
  return hours * 60 + minutes;\<close>
\<close>

definition timeToMinutes :: "string \<Rightarrow> nat" where
  "timeToMinutes timeString =
     (let hours = Number (takeWhile (\<lambda>c. c \<noteq> CHR '':'') timeString);
          rest = drop 1 (dropWhile (\<lambda>c. c \<noteq> CHR '':'') timeString);
          minutes = Number (takeWhile (\<lambda>c. c \<noteq> CHR '':'') rest)
      in hours * 60 + minutes)"

definition minutesToTime :: "nat \<Rightarrow> string" where
  "minutesToTime minutes =
     (let hours = minutes div 60; mins = minutes mod 60
      in padStart2 (nat_toString hours) @ '':'' @ padStart2 (nat_toString mins))"

text \<open>
  \<^verbatim>\<open>calculateShiftHours\<close> parses both times with \<^verbatim>\<open>new Date('2000-01-01T' + t)\<close> and
  divides the difference by an hour. For well-formed times of one day that is the
  difference of the minute offsets over 60.
\<close>

definition calculateShiftHours :: "string \<Rightarrow> string \<Rightarrow> rat" where
  "calculateShiftHours s e = (of_nat (timeToMinutes e) - of_nat (timeToMinutes s)) / 60"

text \<open>
  \<^verbatim>\<open>x.toFixed(1)\<close> on the exact value: sign, then the magnitude rounded to the nearest
  tenth, halves up.
\<close>

definition toFixed1 :: "rat \<Rightarrow> string" where
  "toFixed1 x =
     (let t = nat \<lfloor>\<bar>x\<bar> * 10 + 1 / 2\<rfloor>
      in (if x < 0 then ''-'' else '''') @ nat_toString (t div 10) @ ''.'' @ nat_toString (t mod 10))"

section \<open>Validator (validateSchedule)\<close>

record InsufficientPeriod =
  period_start :: nat
  period_end :: nat
  minCount :: nat

text \<open>
  The size of \<^verbatim>\<open>pharmacistIdsWorking\<close>: the distinct worker ids of the day's shifts with
  \<^verbatim>\<open>shiftStart <= checkTime && shiftEnd > checkTime\<close>.
\<close>

definition isWorkingAt :: "nat \<Rightarrow> Shift \<Rightarrow> bool" where
  "isWorkingAt checkTime shift \<longleftrightarrow>
     timeToMinutes (startTime shift) \<le> checkTime \<and> timeToMinutes (endTime shift) > checkTime"

definition pharmacistsWorking :: "Shift list \<Rightarrow> nat \<Rightarrow> nat" where
  "pharmacistsWorking dayShifts checkTime =
     length (remdups (map pharmacistId (filter (isWorkingAt checkTime) dayShifts)))"

text \<open>
  The loop \<^verbatim>\<open>for (let checkTime = reqStart; checkTime < reqEnd; checkTime += 30)\<close> with its
  two mutable variables \<^verbatim>\<open>insufficientPeriods\<close> and \<^verbatim>\<open>currentPeriod\<close>: first the body
  of one iteration, then the loop.
\<close>

type_synonym check_state = "InsufficientPeriod list \<times> InsufficientPeriod option"

definition checkStep :: "Shift list \<Rightarrow> nat \<Rightarrow> nat \<Rightarrow> nat \<Rightarrow> check_state \<Rightarrow> check_state" where
  "checkStep dayShifts required reqEnd checkTime st =
     (let insufficientPeriods = fst st; currentPeriod = snd st;
          working = pharmacistsWorking dayShifts checkTime in
      if working < required then
        (let periodEnd = min (checkTime + 30) reqEnd in
         case currentPeriod of
           Some p \<Rightarrow>
             (insufficientPeriods,
              Some (p\<lparr>period_end := periodEnd,
                       minCount := (if working < minCount p then working else minCount p)\<rparr>))
         | None \<Rightarrow>
             (insufficientPeriods,
              Some \<lparr>period_start = checkTime, period_end = periodEnd, minCount = working\<rparr>))
      else
        (case currentPeriod of
           Some p \<Rightarrow> (insufficientPeriods @ [p], None)
         | None \<Rightarrow> (insufficientPeriods, None)))"

function checkLoop :: "Shift list \<Rightarrow> nat \<Rightarrow> nat \<Rightarrow> nat \<Rightarrow> check_state \<Rightarrow> check_state" where
  "checkLoop dayShifts required reqEnd checkTime st =
     (if checkTime < reqEnd
      then checkLoop dayShifts required reqEnd (checkTime + 30)
             (checkStep dayShifts required reqEnd checkTime st)
      else st)"
  by pat_completeness auto
termination
  by (relation "measure (\<lambda>(d, r, reqEnd, checkTime, st). reqEnd - checkTime)") auto

declare checkLoop.simps [simp del]

text \<open>The last period, if one is still open when the window ends.\<close>

definition closeLastPeriod :: "nat \<Rightarrow> check_state \<Rightarrow> InsufficientPeriod list" where
  "closeLastPeriod reqEnd st =
     (case snd st of
        Some p \<Rightarrow> fst st @ [p\<lparr>period_end := min (period_end p) reqEnd\<rparr>]
      | None \<Rightarrow> fst st)"

definition coverageMessage :: "nat \<Rightarrow> nat \<Rightarrow> nat \<Rightarrow> nat \<Rightarrow> nat \<Rightarrow> nat \<Rightarrow> string" where
  "coverageMessage periodStart periodEnd cnt required reqStart reqEnd =
     ''Insufficient coverage '' @ minutesToTime periodStart @ ''-'' @ minutesToTime periodEnd
       @ '': '' @ nat_toString cnt @ ''/'' @ nat_toString required
       @ '' (requirement: '' @ minutesToTime reqStart @ ''-'' @ minutesToTime reqEnd @ '')''"

text \<open>The report of one period: clipped to the requirement, dropped when empty.\<close>

definition reportPeriod :: "nat \<Rightarrow> nat \<Rightarrow> nat \<Rightarrow> InsufficientPeriod \<Rightarrow> string list" where
  "reportPeriod reqStart reqEnd required period =
     (let periodStart = max (period_start period) reqStart;
          periodEnd = min (period_end period) reqEnd
      in if periodStart < periodEnd
         then [coverageMessage periodStart periodEnd (minCount period) required reqStart reqEnd]
         else [])"

text \<open>The body of \<^verbatim>\<open>staffingRequirements.forEach(requirement => ...)\<close>.\<close>

definition requirementWarnings :: "Shift list \<Rightarrow> StaffingRequirement \<Rightarrow> string list" where
  "requirementWarnings dayShifts requirement =
     (let reqStart = timeToMinutes (req_startTime requirement);
          reqEnd = timeToMinutes (req_endTime requirement);
          required = requiredPharmacists requirement;
          insufficientPeriods =
            closeLastPeriod reqEnd (checkLoop dayShifts required reqEnd reqStart ([], None))
      in concat (map (reportPeriod reqStart reqEnd required) insufficientPeriods))"

text \<open>\<^verbatim>\<open>pharmacist?.name || shift.pharmacistId\<close>\<close>

definition displayName :: "Pharmacist list \<Rightarrow> string \<Rightarrow> string" where
  "displayName pharmacists pid =
     (case find (\<lambda>p. pharmacist_id p = pid) pharmacists of
        Some p \<Rightarrow> (if pharmacist_name p \<noteq> [] then pharmacist_name p else pid)
      | None \<Rightarrow> pid)"

definition shiftTypeName :: "shift_type \<Rightarrow> string" where
  "shiftTypeName t = (case t of Morning \<Rightarrow> ''morning'' | Afternoon \<Rightarrow> ''afternoon'' | Full \<Rightarrow> ''full'')"

text \<open>The two per-shift checks, in the order the source pushes their warnings.\<close>

definition shiftWarnings :: "Pharmacist list \<Rightarrow> PharmacyRules \<Rightarrow> Shift \<Rightarrow> string list" where
  "shiftWarnings pharmacists rules shift =
     (let shiftHours = calculateShiftHours (startTime shift) (endTime shift) in
      (if (shiftType shift = Morning \<or> shiftType shift = Afternoon) \<and> shiftHours < 2
       then [''Shift too short: '' @ displayName pharmacists (pharmacistId shift) @ '' has a ''
               @ shiftTypeName (shiftType shift) @ '' shift of '' @ toFixed1 shiftHours
               @ ''h (minimum: 2h)'']
       else [])
      @
      (if shiftHours > of_nat (maxHoursPerShift rules)
       then [''Shift exceeds max hours: '' @ displayName pharmacists (pharmacistId shift)
               @ '' works '' @ toFixed1 shiftHours @ ''h (max: ''
               @ nat_toString (maxHoursPerShift rules) @ ''h)'']
       else []))"

text \<open>
  A JavaScript object with string keys is the list of its entries in the order the keys
  were first written; \<open>setEntry\<close> is the assignment \<^verbatim>\<open>obj[k] = v\<close>.

  \<^verbatim>\<open>pharmacistDailyHours\<close> is such an object keyed by worker id.
  \<^verbatim>\<open>if (!obj[id]) obj[id] = 0\<close> also fires on a stored 0.
\<close>

fun setEntry :: "'k \<Rightarrow> 'v \<Rightarrow> ('k \<times> 'v) list \<Rightarrow> ('k \<times> 'v) list" where
  "setEntry k v [] = [(k, v)]"
| "setEntry k v ((k', v') # rest) =
     (if k' = k then (k, v) # rest else (k', v') # setEntry k v rest)"

definition addShiftHours :: "(string \<times> rat) list \<Rightarrow> Shift \<Rightarrow> (string \<times> rat) list" where
  "addShiftHours acc shift =
     (let pid = pharmacistId shift;
          acc0 = (case map_of acc pid of
                    None \<Rightarrow> setEntry pid 0 acc
                  | Some h \<Rightarrow> (if h = 0 then setEntry pid 0 acc else acc));
          cur = (case map_of acc0 pid of Some h \<Rightarrow> h | None \<Rightarrow> 0)
      in setEntry pid (cur + calculateShiftHours (startTime shift) (endTime shift)) acc0)"

definition pharmacistDailyHours :: "Shift list \<Rightarrow> (string \<times> rat) list" where
  "pharmacistDailyHours dayShifts = foldl addShiftHours [] dayShifts"

definition dailyHoursWarning :: "Pharmacist list \<Rightarrow> PharmacyRules \<Rightarrow> string \<times> rat \<Rightarrow> string list" where
  "dailyHoursWarning pharmacists rules entry =
     (if snd entry > of_nat (maxHoursPerDay rules)
      then [''Daily hours exceeded: '' @ displayName pharmacists (fst entry) @ '' works ''
              @ toFixed1 (snd entry) @ ''h (max: '' @ nat_toString (maxHoursPerDay rules) @ ''h)'']
      else [])"

definition dayWarnings :: "Pharmacist list \<Rightarrow> PharmacyRules \<Rightarrow> Shift list \<Rightarrow> string list" where
  "dayWarnings pharmacists rules dayShifts =
     concat (map (requirementWarnings dayShifts) (staffingRequirements rules))
     @ concat (map (shiftWarnings pharmacists rules) dayShifts)
     @ concat (map (dailyHoursWarning pharmacists rules) (pharmacistDailyHours dayShifts))"

definition shiftsOn :: "date \<Rightarrow> Shift list \<Rightarrow> Shift list" where
  "shiftsOn dateStr ss = filter (\<lambda>shift. shift_date shift = dateStr) ss"

text \<open>
  One iteration of the day loop: \<^verbatim>\<open>if (dayWarnings.length > 0) warnings[dateStr] = dayWarnings\<close>.
\<close>

definition validateDay ::
  "Pharmacist list \<Rightarrow> PharmacyRules \<Rightarrow> Schedule \<Rightarrow> nat \<Rightarrow> (date \<times> string list) list" where
  "validateDay pharmacists rules schedule dayIndex =
     (let dateStr = weekStart schedule + int dayIndex;
          ws = dayWarnings pharmacists rules (shiftsOn dateStr (shifts schedule))
      in if length ws > 0 then [(dateStr, ws)] else [])"

text \<open>
  The warnings object as the list of its entries, in key order (the six dates are
  distinct and written in ascending order).
\<close>

definition validateSchedule ::
  "Pharmacist list \<Rightarrow> PharmacyRules \<Rightarrow> Schedule \<Rightarrow> (date \<times> string list) list" where
  "validateSchedule pharmacists rules schedule =
     concat (map (validateDay pharmacists rules schedule) [0..<6])"

section \<open>The coverage check as the specification words it\<close>









section \<open>Example data\<close>


definition mkShift :: "string \<Rightarrow> date \<Rightarrow> string \<Rightarrow> string \<Rightarrow> shift_type \<Rightarrow> Shift" where
  "mkShift w d s e t =
     \<lparr>pharmacistId = w, shift_date = d, startTime = s, endTime = e, shiftType = t,
      isBreakTime = False, patternId = None\<rparr>"

text \<open>A week with two one-hour morning shifts of two workers on its first day.\<close>

definition shortShiftsWeek :: Schedule where
  "shortShiftsWeek =
     \<lparr>weekStart = 100, weekEnd = 105,
      shifts = [mkShift ''w2'' 100 ''09:00'' ''10:00'' Morning,
                mkShift ''w3'' 100 ''11:00'' ''12:00'' Morning],
      warnings = None\<rparr>"

text \<open>Rules with neither requirements nor patterns, so that only the per-shift checks fire.\<close>

definition bareRules :: PharmacyRules where
  "bareRules =
     \<lparr>openingTime = ''09:00'', closingTime = ''19:30'',
      breakStartTime = ''12:30'', breakEndTime = ''14:00'',
      maxHoursPerShift = 8, maxHoursPerDay = 10,
      fixedShiftPatterns = None, staffingRequirements = []\<rparr>"


section \<open>Quantities used to state the daily totals\<close>

text \<open>
  The value stored for a worker in \<^verbatim>\<open>pharmacistDailyHours\<close> (0 when absent), and the sum of
  the hours of a worker's shifts in a list.
\<close>

definition entryOf :: "(string \<times> rat) list \<Rightarrow> string \<Rightarrow> rat" where
  "entryOf acc k = (case map_of acc k of Some h \<Rightarrow> h | None \<Rightarrow> 0)"


section \<open>Part-Time Allocator: the hours of the day\<close>


text \<open>
  \<^verbatim>\<open>pharmacist.freeDay || pharmacist.fixedDayPatterns?.some(p => p.patternId === 'FREE_DAY')\<close>:
  a non-empty \<^verbatim>\<open>freeDay\<close> string is truthy whatever day it names.
\<close>

definition hasFreeDay :: "Pharmacist \<Rightarrow> bool" where
  "hasFreeDay pharmacist \<longleftrightarrow>
     freeDay pharmacist \<noteq> []
     \<or> (case fixedDayPatterns pharmacist of
          Some dps \<Rightarrow> list_ex (\<lambda>dp. snd dp = ''FREE_DAY'') dps
        | None \<Rightarrow> False)"

definition workingDaysPerWeek :: "Pharmacist \<Rightarrow> int" where
  "workingDaysPerWeek pharmacist = (if hasFreeDay pharmacist then 5 else 6)"




text \<open>A worker with the given id, weekly hours and free day, and no fixed day patterns.\<close>

definition partTimer :: "string \<Rightarrow> rat \<Rightarrow> string \<Rightarrow> Pharmacist" where
  "partTimer pid hours fd =
     \<lparr>pharmacist_id = pid, pharmacist_name = pid, weeklyHours = hours, freeDay = fd,
      freeSaturdayWeek = None, isActive = True, fixedDayPatterns = None\<rparr>"

section \<open>Pattern Assigner: scoring against unmet requirements\<close>
















text \<open>The two patterns of Scenario A and the tracker before anyone is assigned.\<close>

definition patternA :: FixedShiftPattern where
  "patternA = \<lparr>pattern_id = ''A'', pattern_name = ''A'',
          morningShift = \<lparr>sub_startTime = ''09:00'', sub_endTime = ''12:30''\<rparr>,
          afternoonShift = \<lparr>sub_startTime = ''13:00'', sub_endTime = ''17:30''\<rparr>\<rparr>"

definition patternB :: FixedShiftPattern where
  "patternB = \<lparr>pattern_id = ''B'', pattern_name = ''B'',
          morningShift = \<lparr>sub_startTime = ''11:00'', sub_endTime = ''13:00''\<rparr>,
          afternoonShift = \<lparr>sub_startTime = ''14:00'', sub_endTime = ''19:30''\<rparr>\<rparr>"


section \<open>Week/Schedule Assembler and Warning Resolver\<close>

text \<open>
  The state of a \<^verbatim>\<open>ScheduleGenerator\<close>: the constructor keeps the active workers in a new
  array and keeps the caller's rules object itself, so what the generator writes to
  \<^verbatim>\<open>this.pharmacyRules\<close> the caller sees.
\<close>

record ScheduleGenerator =
  pharmacists :: "Pharmacist list"
  pharmacyRules :: PharmacyRules

definition newScheduleGenerator :: "Pharmacist list \<Rightarrow> PharmacyRules \<Rightarrow> ScheduleGenerator" where
  "newScheduleGenerator ps rules = \<lparr>pharmacists = filter isActive ps, pharmacyRules = rules\<rparr>"

text \<open>
  \<^verbatim>\<open>adaptBreakDuration\<close>. The new end of the break is a \<^verbatim>\<open>Date\<close> half an hour (or two and
  a half hours) after the start, printed with \<^verbatim>\<open>toTimeString().slice(0, 5)\<close>: the time of
  day, past midnight if need be.
\<close>

definition adaptBreakDuration :: "PharmacyRules \<Rightarrow> PharmacyRules" where
  "adaptBreakDuration rules =
     (let breakDurationHours = calculateShiftHours (breakStartTime rules) (breakEndTime rules) in
      if breakDurationHours < 1 / 2
      then rules\<lparr>breakEndTime :=
             minutesToTime ((timeToMinutes (breakStartTime rules) + 30) mod 1440)\<rparr>
      else if breakDurationHours > 5 / 2
      then rules\<lparr>breakEndTime :=
             minutesToTime ((timeToMinutes (breakStartTime rules) + 150) mod 1440)\<rparr>
      else rules)"

text \<open>
  \<^verbatim>\<open>Object.values(warnings).some(dayWarnings => dayWarnings.length > 0)\<close> and
  \<^verbatim>\<open>Object.values(warnings).reduce((sum, warnings) => sum + warnings.length, 0)\<close>
\<close>

definition hasWarnings :: "(date \<times> string list) list \<Rightarrow> bool" where
  "hasWarnings ws = list_ex (\<lambda>entry. length (snd entry) > 0) ws"

definition warningCount :: "(date \<times> string list) list \<Rightarrow> nat" where
  "warningCount ws = foldl (\<lambda>sum entry. sum + length (snd entry)) 0 ws"

text \<open>
  The rotation tracker maps a worker id to the index of the pattern the worker starts
  with (the \<^verbatim>\<open>dailyPatterns\<close> log kept beside it is write-only and left out).
\<close>

type_synonym rotation_tracker = "(string \<times> nat) list"

definition reassignablePharmacists :: "ScheduleGenerator \<Rightarrow> Pharmacist list" where
  "reassignablePharmacists g =
     filter (\<lambda>p. case fixedDayPatterns p of None \<Rightarrow> True | Some dps \<Rightarrow> length dps = 0)
       (pharmacists g)"

text \<open>\<^verbatim>\<open>array.findIndex(p => p.id === id)\<close>, \<open>-1\<close> when there is none.\<close>

fun findIndex :: "('a \<Rightarrow> bool) \<Rightarrow> 'a list \<Rightarrow> int" where
  "findIndex P [] = -1"
| "findIndex P (x # xs) =
     (if P x then 0 else (let i = findIndex P xs in if i < 0 then -1 else i + 1))"

text \<open>\<^verbatim>\<open>id.split('').reduce((h, c) => h + c.charCodeAt(0), 0)\<close>\<close>

definition idHash :: "string \<Rightarrow> nat" where
  "idHash s = foldl (\<lambda>h c. h + of_char c) 0 s"

definition attemptTracker ::
  "ScheduleGenerator \<Rightarrow> FixedShiftPattern list \<Rightarrow> nat \<Rightarrow> rotation_tracker" where
  "attemptTracker g patterns attempt =
     (let reassignable = reassignablePharmacists g in
      foldl (\<lambda>acc pharmacist.
               if list_ex (\<lambda>p. pharmacist_id p = pharmacist_id pharmacist) reassignable
               then (let pharmacistIndex =
                           findIndex (\<lambda>p. pharmacist_id p = pharmacist_id pharmacist) reassignable;
                         patternOffset = (attempt div length reassignable) mod length patterns;
                         startIndex =
                           nat ((pharmacistIndex + int patternOffset + int attempt)
                                mod int (length patterns))
                     in setEntry (pharmacist_id pharmacist) startIndex acc)
               else setEntry (pharmacist_id pharmacist)
                      (idHash (pharmacist_id pharmacist) mod length patterns) acc)
        [] (pharmacists g))"

text \<open>
  The attempts of \<^verbatim>\<open>tryResolveWarnings\<close>. The week generated from a tracker
  (\<^verbatim>\<open>generateWeekScheduleWithRotation\<close>) is passed in as \<open>rotationWeek\<close>; the state is
  \<^verbatim>\<open>bestSchedule\<close> and \<^verbatim>\<open>bestWarningCount\<close>, and a schedule without warnings ends the loop.
\<close>

function resolveLoop ::
  "ScheduleGenerator \<Rightarrow> (rotation_tracker \<Rightarrow> Schedule) \<Rightarrow> FixedShiftPattern list \<Rightarrow> nat \<Rightarrow> nat
     \<Rightarrow> Schedule option \<times> nat \<Rightarrow> Schedule option \<times> nat" where
  "resolveLoop g rotationWeek patterns maxAttempts attempt st =
     (if attempt < maxAttempts then
        (let testSchedule = rotationWeek (attemptTracker g patterns attempt);
             testWarningCount =
               warningCount (validateSchedule (pharmacists g) (pharmacyRules g) testSchedule)
         in if testWarningCount < snd st
            then (if testWarningCount = 0 then (Some testSchedule, testWarningCount)
                  else resolveLoop g rotationWeek patterns maxAttempts (attempt + 1)
                         (Some testSchedule, testWarningCount))
            else resolveLoop g rotationWeek patterns maxAttempts (attempt + 1) st)
      else st)"
  by pat_completeness auto
termination
  by (relation "measure (\<lambda>(g, r, ps, maxAttempts, attempt, st). maxAttempts - attempt)") auto

declare resolveLoop.simps [simp del]

definition tryResolveWarnings ::
  "ScheduleGenerator \<Rightarrow> (rotation_tracker \<Rightarrow> Schedule) \<Rightarrow> (date \<times> string list) list
     \<Rightarrow> Schedule option" where
  "tryResolveWarnings g rotationWeek originalWarnings =
     (case fixedShiftPatterns (pharmacyRules g) of
        None \<Rightarrow> None
      | Some patterns \<Rightarrow>
          if length patterns = 0 then None
          else
            (let originalWarningCount = warningCount originalWarnings;
                 maxAttempts =
                   min (length patterns * length (reassignablePharmacists g) * 2) 50
             in fst (resolveLoop g rotationWeek patterns maxAttempts 0
                       (None, originalWarningCount))))"

text \<open>
  The body of the loop over the weeks in \<^verbatim>\<open>generateSchedule\<close>, from the schedule the
  first pass (\<^verbatim>\<open>generateWeekSchedule\<close>) produced for the week.
\<close>

definition resolveWeek ::
  "ScheduleGenerator \<Rightarrow> (rotation_tracker \<Rightarrow> Schedule) \<Rightarrow> Schedule \<Rightarrow> Schedule" where
  "resolveWeek g rotationWeek initial =
     (let warnings0 = validateSchedule (pharmacists g) (pharmacyRules g) initial in
      if hasWarnings warnings0
      then (case tryResolveWarnings g rotationWeek warnings0 of
              Some bestSchedule \<Rightarrow>
                bestSchedule\<lparr>warnings :=
                  Some (validateSchedule (pharmacists g) (pharmacyRules g) bestSchedule)\<rparr>
            | None \<Rightarrow> initial\<lparr>warnings := Some warnings0\<rparr>)
      else initial\<lparr>warnings := Some warnings0\<rparr>)"

text \<open>
  \<^verbatim>\<open>weekStartDate.setDate(startDate.getDate() - startDate.getDay() + 1)\<close>: day 0 of the day
  numbering is a Thursday, and \<^verbatim>\<open>getDay()\<close> counts from Sunday.
\<close>

definition mondayOf :: "date \<Rightarrow> date" where
  "mondayOf startDate = startDate - ((startDate + 4) mod 7) + 1"

text \<open>
  \<^verbatim>\<open>generateSchedule(weeks, startDate)\<close>, with the two week generators passed in as
  functions of the generator state, the Monday of the week and the week number:
  \<open>firstPass\<close> for \<^verbatim>\<open>generateWeekSchedule\<close> and \<open>rotationPass\<close> for
  \<^verbatim>\<open>generateWeekScheduleWithRotation\<close>. It returns the schedules and the state it
  leaves behind.
\<close>

definition generateSchedule ::
  "(ScheduleGenerator \<Rightarrow> date \<Rightarrow> nat \<Rightarrow> Schedule)
     \<Rightarrow> (ScheduleGenerator \<Rightarrow> date \<Rightarrow> nat \<Rightarrow> rotation_tracker \<Rightarrow> Schedule)
     \<Rightarrow> ScheduleGenerator \<Rightarrow> nat \<Rightarrow> date \<Rightarrow> Schedule list \<times> ScheduleGenerator" where
  "generateSchedule firstPass rotationPass g0 weeks startDate =
     (let g = g0\<lparr>pharmacyRules := adaptBreakDuration (pharmacyRules g0)\<rparr>;
          weekStartDate = mondayOf startDate
      in (map (\<lambda>week.
                 (let monday = weekStartDate + int week * 7
                  in resolveWeek g (rotationPass g monday week)
                       (firstPass g monday week)))
            [0..<weeks],
          g))"

text \<open>
  Week generators for the examples: they return a given schedule whatever the state, and
  one worker without fixed patterns; rules with the two patterns of Scenario A and no
  staffing requirement; rules with a ten-minute break.
\<close>

definition constFirstPass :: "Schedule \<Rightarrow> ScheduleGenerator \<Rightarrow> date \<Rightarrow> nat \<Rightarrow> Schedule" where
  "constFirstPass s g monday week = s"

definition constRotation ::
  "Schedule \<Rightarrow> ScheduleGenerator \<Rightarrow> date \<Rightarrow> nat \<Rightarrow> rotation_tracker \<Rightarrow> Schedule" where
  "constRotation s g monday week tracker = s"

definition emptyWeek :: Schedule where
  "emptyWeek = \<lparr>weekStart = 100, weekEnd = 105, shifts = [], warnings = None\<rparr>"

definition patternRules :: PharmacyRules where
  "patternRules = bareRules\<lparr>fixedShiftPatterns := Some [patternA, patternB]\<rparr>"


definition oneWorker :: ScheduleGenerator where
  "oneWorker = \<lparr>pharmacists = [partTimer ''w1'' 40 ''Sunday''], pharmacyRules = patternRules\<rparr>"

section \<open>Shift Synthesizer (generateDayShifts)\<close>

text \<open>One element of the list \<^verbatim>\<open>createShiftAssignments\<close> returns.\<close>

record Assignment =
  a_pharmacist :: Pharmacist
  a_shiftType :: shift_type
  a_startTime :: string
  a_endTime :: string
  a_patternId :: "string option"

definition newShift ::
  "date \<Rightarrow> Assignment \<Rightarrow> string \<Rightarrow> string \<Rightarrow> shift_type \<Rightarrow> Shift" where
  "newShift dateStr assignment startT endT t =
     \<lparr>pharmacistId = pharmacist_id (a_pharmacist assignment), shift_date = dateStr,
      startTime = startT, endTime = endT, shiftType = t, isBreakTime = False,
      patternId = a_patternId assignment\<rparr>"

text \<open>
  The body of \<^verbatim>\<open>shiftAssignments.forEach\<close> for one assignment: the shifts it pushes and
  \<^verbatim>\<open>totalShiftHours\<close>. The two \<^verbatim>\<open>return\<close> statements leave the callback with nothing
  pushed and nothing to deduct, which is the result \<open>([], 0)\<close>.
\<close>

definition synthesizeMorning :: "PharmacyRules \<Rightarrow> date \<Rightarrow> Assignment \<Rightarrow> Shift list \<times> rat" where
  "synthesizeMorning rules dateStr assignment =
     (let startT = a_startTime assignment; endT = a_endTime assignment;
          shiftHours = calculateShiftHours startT endT
      in if shiftHours < 2 then
           (let startMinutes = timeToMinutes startT;
                minEndMinutes = startMinutes + 2 * 60;
                closingMinutes = timeToMinutes (closingTime rules)
            in if minEndMinutes \<le> closingMinutes
               then ([newShift dateStr assignment startT (minutesToTime minEndMinutes) Morning], 2)
               else (let openingMinutes = timeToMinutes (openingTime rules);
                         minEndFromOpening = openingMinutes + 2 * 60
                     in if minEndFromOpening \<le> closingMinutes
                        then ([newShift dateStr assignment startT
                                 (minutesToTime minEndFromOpening) Morning], 2)
                        else ([], 0)))
         else ([newShift dateStr assignment startT endT Morning], shiftHours))"

definition synthesizeAfternoon :: "PharmacyRules \<Rightarrow> date \<Rightarrow> Assignment \<Rightarrow> Shift list \<times> rat" where
  "synthesizeAfternoon rules dateStr assignment =
     (let startT = a_startTime assignment; endT = a_endTime assignment;
          shiftHours = calculateShiftHours startT endT
      in if shiftHours < 2 then
           (let startMinutes = timeToMinutes startT;
                minEndMinutes = startMinutes + 2 * 60;
                closingMinutes = timeToMinutes (closingTime rules)
            in if minEndMinutes \<le> closingMinutes
               then ([newShift dateStr assignment startT (minutesToTime minEndMinutes) Afternoon], 2)
               else (let minStartMinutes = int closingMinutes - 2 * 60;
                         breakEndMinutes = int (timeToMinutes (breakEndTime rules))
                     in if minStartMinutes \<ge> breakEndMinutes
                        then ([newShift dateStr assignment (minutesToTime (nat minStartMinutes))
                                 (closingTime rules) Afternoon], 2)
                        else ([], 0)))
         else ([newShift dateStr assignment startT endT Afternoon], shiftHours))"

definition synthesizeFull :: "PharmacyRules \<Rightarrow> date \<Rightarrow> Assignment \<Rightarrow> Shift list \<times> rat" where
  "synthesizeFull rules dateStr assignment =
     (let startT = a_startTime assignment; endT = a_endTime assignment;
          morningHours =
            (of_nat (timeToMinutes (breakStartTime rules)) - of_nat (timeToMinutes startT)) / (60 :: rat);
          afternoonHours =
            (of_nat (timeToMinutes endT) - of_nat (timeToMinutes (breakEndTime rules))) / (60 :: rat);
          isPartTime = weeklyHours (a_pharmacist assignment) < 40;
          morning =
            (if morningHours \<ge> 2
             then ([newShift dateStr assignment startT (breakStartTime rules) Morning], morningHours)
             else if isPartTime \<and> morningHours > 0
             then ([newShift dateStr assignment startT (breakStartTime rules) Morning],
                   max 2 morningHours)
             else ([], 0));
          afternoon =
            (if afternoonHours \<ge> 2
             then ([newShift dateStr assignment (breakEndTime rules) endT Afternoon], afternoonHours)
             else if isPartTime \<and> afternoonHours > 0
             then ([newShift dateStr assignment (breakEndTime rules) endT Afternoon],
                   max 2 afternoonHours)
             else ([], 0));
          shifts = fst morning @ fst afternoon;
          totalShiftHours = snd morning + snd afternoon
      in if isPartTime \<and> totalShiftHours = 0 then
           (let openingMinutes = timeToMinutes (openingTime rules);
                minEndMinutes = openingMinutes + 2 * 60;
                closingMinutes = timeToMinutes (closingTime rules)
            in if minEndMinutes \<le> closingMinutes
               then (shifts @ [newShift dateStr assignment (openingTime rules)
                                 (minutesToTime minEndMinutes) Morning], 2)
               else (shifts, totalShiftHours))
         else (shifts, totalShiftHours))"

definition synthesize :: "PharmacyRules \<Rightarrow> date \<Rightarrow> Assignment \<Rightarrow> Shift list \<times> rat" where
  "synthesize rules dateStr assignment =
     (case a_shiftType assignment of
        Morning \<Rightarrow> synthesizeMorning rules dateStr assignment
      | Afternoon \<Rightarrow> synthesizeAfternoon rules dateStr assignment
      | Full \<Rightarrow> synthesizeFull rules dateStr assignment)"

text \<open>
  The ledger \<^verbatim>\<open>weeklyHours\<close> maps a worker id to the hours left this week; it has an entry
  for every worker of the generator. \<^verbatim>\<open>weeklyHours[id] -= totalShiftHours\<close>
\<close>

type_synonym hours_ledger = "(string \<times> rat) list"

definition deductHours :: "string \<Rightarrow> rat \<Rightarrow> hours_ledger \<Rightarrow> hours_ledger" where
  "deductHours pid h ledger = setEntry pid (entryOf ledger pid - h) ledger"

definition synthesizeStep ::
  "PharmacyRules \<Rightarrow> date \<Rightarrow> Shift list \<times> hours_ledger \<Rightarrow> Assignment \<Rightarrow> Shift list \<times> hours_ledger" where
  "synthesizeStep rules dateStr st assignment =
     (let made = synthesize rules dateStr assignment;
          totalShiftHours = snd made
      in (fst st @ fst made,
          if totalShiftHours > 0
          then deductHours (pharmacist_id (a_pharmacist assignment)) totalShiftHours (snd st)
          else snd st))"

text \<open>
  The loop \<^verbatim>\<open>shiftAssignments.forEach\<close> of \<^verbatim>\<open>generateDayShifts\<close>: the shifts of the day
  and the ledger after the deductions.
\<close>

definition synthesizeShifts ::
  "PharmacyRules \<Rightarrow> date \<Rightarrow> Assignment list \<Rightarrow> hours_ledger \<Rightarrow> Shift list \<times> hours_ledger" where
  "synthesizeShifts rules dateStr shiftAssignments weeklyHoursLedger =
     foldl (synthesizeStep rules dateStr) ([], weeklyHoursLedger) shiftAssignments"

section \<open>Day Orchestrator, first pass (generateWeekSchedule)\<close>

definition dayNames :: "string list" where
  "dayNames = [''Monday'', ''Tuesday'', ''Wednesday'', ''Thursday'', ''Friday'', ''Saturday'']"

definition isFreeDay :: "Pharmacist \<Rightarrow> string \<Rightarrow> bool" where
  "isFreeDay pharmacist dayName \<longleftrightarrow>
     freeDay pharmacist = dayName
     \<or> (case fixedDayPatterns pharmacist of
          Some dps \<Rightarrow> list_ex (\<lambda>dp. snd dp = ''FREE_DAY'' \<and> fst dp = dayName) dps
        | None \<Rightarrow> False)"

text \<open>
  The three exclusions of the day: inactive workers, workers on their free day, and on a
  Saturday the workers whose \<^verbatim>\<open>freeSaturdayWeek\<close> is this week.
\<close>

definition availableOn :: "string \<Rightarrow> nat \<Rightarrow> Pharmacist \<Rightarrow> bool" where
  "availableOn dayName weekNumber ph \<longleftrightarrow>
     isActive ph \<and> \<not> isFreeDay ph dayName
     \<and> \<not> (dayName = ''Saturday'' \<and> freeSaturdayWeek ph = Some weekNumber)"

definition availablePharmacists :: "ScheduleGenerator \<Rightarrow> string \<Rightarrow> nat \<Rightarrow> Pharmacist list" where
  "availablePharmacists g dayName weekNumber =
     filter (availableOn dayName weekNumber) (pharmacists g)"

text \<open>
  The pattern a worker is fixed to on the day, if the worker names one that is not
  \<^verbatim>\<open>'FREE_DAY'\<close> and the rules have a pattern of that id.
\<close>

definition fixedPatternOn :: "FixedShiftPattern list option \<Rightarrow> string \<Rightarrow> Pharmacist \<Rightarrow> FixedShiftPattern option" where
  "fixedPatternOn patternsOpt dayName ph =
     (case fixedDayPatterns ph of
        None \<Rightarrow> None
      | Some dps \<Rightarrow>
          (case find (\<lambda>dp. fst dp = dayName) dps of
             None \<Rightarrow> None
           | Some dp \<Rightarrow>
               if snd dp \<noteq> ''FREE_DAY''
               then (case patternsOpt of
                       None \<Rightarrow> None
                     | Some ps \<Rightarrow> find (\<lambda>p. pattern_id p = snd dp) ps)
               else None))"

definition fixedAssignments ::
  "PharmacyRules \<Rightarrow> string \<Rightarrow> Pharmacist list \<Rightarrow> (Pharmacist \<times> FixedShiftPattern) list" where
  "fixedAssignments rules dayName available =
     concat (map (\<lambda>ph. case fixedPatternOn (fixedShiftPatterns rules) dayName ph of
                         Some pattern \<Rightarrow> [(ph, pattern)] | None \<Rightarrow> [])
               available)"

definition remainingPharmacists :: "PharmacyRules \<Rightarrow> string \<Rightarrow> Pharmacist list \<Rightarrow> Pharmacist list" where
  "remainingPharmacists rules dayName available =
     filter (\<lambda>ph. fixedPatternOn (fixedShiftPatterns rules) dayName ph = None) available"

text \<open>The morning and the afternoon shift made from a pattern (lines 261-286 and 289-312).\<close>

definition patternShifts :: "date \<Rightarrow> string \<Rightarrow> FixedShiftPattern \<Rightarrow> Shift list" where
  "patternShifts dateStr pid pattern =
     [\<lparr>pharmacistId = pid, shift_date = dateStr,
       startTime = sub_startTime (morningShift pattern),
       endTime = sub_endTime (morningShift pattern),
       shiftType = Morning, isBreakTime = False, patternId = Some (pattern_id pattern)\<rparr>,
      \<lparr>pharmacistId = pid, shift_date = dateStr,
       startTime = sub_startTime (afternoonShift pattern),
       endTime = sub_endTime (afternoonShift pattern),
       shiftType = Afternoon, isBreakTime = False, patternId = Some (pattern_id pattern)\<rparr>]"

text \<open>
  \<^verbatim>\<open>patternUsage[pharmacistId][patternId]\<close>, read with \<^verbatim>\<open>|| 0\<close>: a count for every pair
  of ids.
\<close>

type_synonym pattern_usage = "string \<Rightarrow> string \<Rightarrow> nat"

definition bumpUsage :: "string \<Rightarrow> string \<Rightarrow> pattern_usage \<Rightarrow> pattern_usage" where
  "bumpUsage pid patId usage = usage(pid := (usage pid)(patId := usage pid patId + 1))"

definition setUsage :: "string \<Rightarrow> string \<Rightarrow> nat \<Rightarrow> pattern_usage \<Rightarrow> pattern_usage" where
  "setUsage pid patId n usage = usage(pid := (usage pid)(patId := n))"

text \<open>
  What generation can raise: \<^verbatim>\<open>reduce\<close> of an empty array with no initial value is a
  \<^verbatim>\<open>TypeError\<close>. The source has no \<^verbatim>\<open>throw\<close> of its own on this path.
\<close>

datatype error = TypeError

text \<open>
  The pattern given to one worker of the shuffled list: the first shuffled pattern the
  worker has used less than twice this week, else the least used one (the first of them).
\<close>

definition assignedPattern ::
  "pattern_usage \<Rightarrow> FixedShiftPattern list \<Rightarrow> string \<Rightarrow> error + FixedShiftPattern" where
  "assignedPattern usage shuffledPatterns pid =
     (case find (\<lambda>pattern. usage pid (pattern_id pattern) < 2) shuffledPatterns of
        Some pattern \<Rightarrow> Inr pattern
      | None \<Rightarrow>
          (case shuffledPatterns of
             [] \<Rightarrow> Inl TypeError
           | first # rest \<Rightarrow>
               Inr (foldl (\<lambda>least p. if usage pid (pattern_id p) < usage pid (pattern_id least)
                                     then p else least) first rest)))"

fun assignShuffled ::
  "date \<Rightarrow> FixedShiftPattern list \<Rightarrow> Pharmacist list \<Rightarrow> Shift list \<times> pattern_usage
     \<Rightarrow> error + Shift list \<times> pattern_usage" where
  "assignShuffled dateStr shuffledPatterns [] st = Inr st"
| "assignShuffled dateStr shuffledPatterns (ph # rest) st =
     (case assignedPattern (snd st) shuffledPatterns (pharmacist_id ph) of
        Inl e \<Rightarrow> Inl e
      | Inr pattern \<Rightarrow>
          assignShuffled dateStr shuffledPatterns rest
            (fst st @ patternShifts dateStr (pharmacist_id ph) pattern,
             bumpUsage (pharmacist_id ph) (pattern_id pattern) (snd st)))"

definition assignFixed ::
  "date \<Rightarrow> (Pharmacist \<times> FixedShiftPattern) list \<Rightarrow> Shift list \<times> pattern_usage
     \<Rightarrow> Shift list \<times> pattern_usage" where
  "assignFixed dateStr fixed st =
     foldl (\<lambda>st fa. (fst st @ patternShifts dateStr (pharmacist_id (fst fa)) (snd fa),
                      bumpUsage (pharmacist_id (fst fa)) (pattern_id (snd fa)) (snd st)))
       st fixed"

text \<open>
  The reset at the end of a retry that left warnings: for the remaining workers without a
  fixed assignment, every pattern's count is set to the number of the worker's shifts of
  that pattern on the days before.
\<close>

definition resetUsage ::
  "Shift list \<Rightarrow> (Pharmacist \<times> FixedShiftPattern) list \<Rightarrow> Pharmacist list
     \<Rightarrow> FixedShiftPattern list \<Rightarrow> pattern_usage \<Rightarrow> pattern_usage" where
  "resetUsage shiftsSoFar fixed remaining patterns usage =
     foldl (\<lambda>u ph.
              foldl (\<lambda>u pattern.
                       if list_ex (\<lambda>fa. pharmacist_id (fst fa) = pharmacist_id ph) fixed then u
                       else setUsage (pharmacist_id ph) (pattern_id pattern)
                              (length (filter (\<lambda>s. pharmacistId s = pharmacist_id ph
                                                  \<and> patternId s = Some (pattern_id pattern))
                                         shiftsSoFar)) u)
                u patterns)
       usage remaining"

text \<open>
  The two shuffles \<^verbatim>\<open>[...xs].sort(() => Math.random() - 0.5)\<close> of a retry are not
  determined by the program; they are read from a source of choices, by day and retry.
  So are the boundaries the two repair passes for part-time workers compute
  (\<^verbatim>\<open>adjustPartTimeShiftsForWarnings\<close>, \<^verbatim>\<open>adjustPartTimeHours\<close>): these passes assign to
  nothing but the \<^verbatim>\<open>startTime\<close> and \<^verbatim>\<open>endTime\<close> of shifts of part-time workers, and the
  times they write, computed in floating point, are left open.
\<close>

record Choices =
  shufflePharmacists :: "nat \<Rightarrow> nat \<Rightarrow> Pharmacist list \<Rightarrow> Pharmacist list"
  shufflePatterns :: "nat \<Rightarrow> nat \<Rightarrow> FixedShiftPattern list \<Rightarrow> FixedShiftPattern list"
  movedTimes :: "string list \<Rightarrow> Pharmacist \<Rightarrow> Shift list \<Rightarrow> nat \<Rightarrow> string \<times> string"
  trimmedTimes :: "Pharmacist \<Rightarrow> Shift list \<Rightarrow> nat \<Rightarrow> string \<times> string"

text \<open>New boundaries for the shifts of one worker, by position in the list.\<close>

definition retime :: "(nat \<Rightarrow> string \<times> string) \<Rightarrow> string \<Rightarrow> Shift list \<Rightarrow> Shift list" where
  "retime newTimes pid ss =
     map (\<lambda>(i, s). if pharmacistId s = pid
                    then s\<lparr>startTime := fst (newTimes i), endTime := snd (newTimes i)\<rparr> else s)
       (enumerate 0 ss)"

definition adjustPartTimeShiftsForWarnings ::
  "Choices \<Rightarrow> ScheduleGenerator \<Rightarrow> Shift list \<Rightarrow> string list \<Rightarrow> Shift list" where
  "adjustPartTimeShiftsForWarnings choices g dayShifts ws =
     foldl (\<lambda>ss ph. retime (movedTimes choices ws ph ss) (pharmacist_id ph) ss) dayShifts
       (filter (\<lambda>p. weeklyHours p < 40) (pharmacists g))"

definition adjustPartTimeHours :: "Choices \<Rightarrow> ScheduleGenerator \<Rightarrow> Shift list \<Rightarrow> Shift list" where
  "adjustPartTimeHours choices g ss =
     foldl (\<lambda>ss ph. retime (trimmedTimes choices ph ss) (pharmacist_id ph) ss) ss
       (filter (\<lambda>p. weeklyHours p < 40) (pharmacists g))"

text \<open>
  The state of the retry loop: \<^verbatim>\<open>bestDayShifts\<close>, \<^verbatim>\<open>bestWarnings\<close> and the pattern usage
  (\<^verbatim>\<open>bestRetry\<close> is only logged). A retry without warnings ends the loop and leaves
  \<^verbatim>\<open>bestWarnings\<close> as it was.
\<close>

type_synonym retry_state = "Shift list \<times> string list \<times> pattern_usage"

function retryLoop ::
  "Choices \<Rightarrow> ScheduleGenerator \<Rightarrow> date \<Rightarrow> nat \<Rightarrow> date \<Rightarrow> Shift list
     \<Rightarrow> (Pharmacist \<times> FixedShiftPattern) list \<Rightarrow> Pharmacist list \<Rightarrow> FixedShiftPattern list
     \<Rightarrow> nat \<Rightarrow> retry_state \<Rightarrow> error + retry_state" where
  "retryLoop choices g monday dayIndex dateStr shiftsSoFar fixed remaining patterns retry st =
     (if retry < 50 then
        (let shuffledPharmacists = shufflePharmacists choices dayIndex retry remaining;
             shuffledPatterns = shufflePatterns choices dayIndex retry patterns
         in case assignShuffled dateStr shuffledPatterns shuffledPharmacists ([], snd (snd st)) of
              Inl e \<Rightarrow> Inl e
            | Inr assigned \<Rightarrow>
                (let done = assignFixed dateStr fixed assigned;
                     dayShifts = fst done;
                     usage = snd done;
                     tempSchedule = \<lparr>weekStart = monday, weekEnd = monday + 5,
                                     shifts = shiftsSoFar @ dayShifts, warnings = None\<rparr>;
                     found = validateSchedule (pharmacists g) (pharmacyRules g) tempSchedule;
                     dayWs = (case map_of found dateStr of Some ws \<Rightarrow> ws | None \<Rightarrow> [])
                 in if length dayWs = 0 then Inr (dayShifts, fst (snd st), usage)
                    else
                      (let best = (if retry = 0 \<or> length dayWs < length (fst (snd st))
                                   then (dayShifts, dayWs) else (fst st, fst (snd st)))
                       in retryLoop choices g monday dayIndex dateStr shiftsSoFar fixed remaining
                            patterns (retry + 1)
                            (fst best, snd best,
                             resetUsage shiftsSoFar fixed remaining patterns usage))))
      else Inr st)"
  by pat_completeness auto
termination
  by (relation "measure (\<lambda>(c, g, m, di, d, ss, f, r, ps, retry, st). 50 - retry)") auto

declare retryLoop.simps [simp del]

text \<open>
  The count of pattern uses of the day: one for each pair of worker and pattern that
  occurs among the chosen shifts.
\<close>

definition countDayPatterns :: "Shift list \<Rightarrow> pattern_usage \<Rightarrow> pattern_usage" where
  "countDayPatterns bestDayShifts usage =
     foldl (\<lambda>u pair. bumpUsage (fst pair) (snd pair) u) usage
       (remdups (concat (map (\<lambda>s. case patternId s of
                                     Some patId \<Rightarrow> [(pharmacistId s, patId)] | None \<Rightarrow> [])
                           bestDayShifts)))"

text \<open>One iteration of the loop over the six days; \<^verbatim>\<open>continue\<close> leaves the state as it is.\<close>

definition firstPassDay ::
  "Choices \<Rightarrow> ScheduleGenerator \<Rightarrow> date \<Rightarrow> nat \<Rightarrow> Shift list \<times> pattern_usage \<Rightarrow> nat
     \<Rightarrow> error + Shift list \<times> pattern_usage" where
  "firstPassDay choices g monday weekNumber st dayIndex =
     (let dayName = dayNames ! dayIndex;
          dateStr = monday + int dayIndex;
          available = availablePharmacists g dayName weekNumber
      in if length available < 3 then Inr st
         else
           (let fixed = fixedAssignments (pharmacyRules g) dayName available;
                remaining = remainingPharmacists (pharmacyRules g) dayName available;
                patterns = (case fixedShiftPatterns (pharmacyRules g) of
                              Some ps \<Rightarrow> ps | None \<Rightarrow> [])
            in if length patterns = 0 then Inr st
               else
                 (case retryLoop choices g monday dayIndex dateStr (fst st) fixed remaining
                         patterns 0 ([], [], snd st) of
                    Inl e \<Rightarrow> Inl e
                  | Inr result \<Rightarrow>
                      (let bestWarnings = fst (snd result);
                           bestDayShifts =
                             (if length bestWarnings > 0
                              then adjustPartTimeShiftsForWarnings choices g (fst result) bestWarnings
                              else fst result)
                       in Inr (fst st @ bestDayShifts,
                               countDayPatterns bestDayShifts (snd (snd result)))))))"

fun firstPassDays ::
  "Choices \<Rightarrow> ScheduleGenerator \<Rightarrow> date \<Rightarrow> nat \<Rightarrow> nat list \<Rightarrow> Shift list \<times> pattern_usage
     \<Rightarrow> error + Shift list \<times> pattern_usage" where
  "firstPassDays choices g monday weekNumber [] st = Inr st"
| "firstPassDays choices g monday weekNumber (dayIndex # rest) st =
     (case firstPassDay choices g monday weekNumber st dayIndex of
        Inl e \<Rightarrow> Inl e
      | Inr st' \<Rightarrow> firstPassDays choices g monday weekNumber rest st')"

definition generateWeekSchedule ::
  "Choices \<Rightarrow> ScheduleGenerator \<Rightarrow> date \<Rightarrow> nat \<Rightarrow> error + Schedule" where
  "generateWeekSchedule choices g monday weekNumber =
     (case firstPassDays choices g monday weekNumber [0..<6] ([], \<lambda>pid patId. 0) of
        Inl e \<Rightarrow> Inl e
      | Inr st \<Rightarrow>
          Inr \<lparr>weekStart = monday, weekEnd = monday + 5,
               shifts = adjustPartTimeHours choices g (fst st), warnings = None\<rparr>)"

section \<open>Day Orchestrator, rotation variant (generateWeekScheduleWithRotation)\<close>

text \<open>
  The ledger of remaining working days of the part-time workers, and its initial value
  (lines 2310-2317): 5 for a worker with a free day, 6 for one without.
\<close>

type_synonym days_ledger = "(string \<times> int) list"

definition initialWorkingDays :: "ScheduleGenerator \<Rightarrow> days_ledger" where
  "initialWorkingDays g =
     foldl (\<lambda>acc ph. setEntry (pharmacist_id ph) (workingDaysPerWeek ph) acc) []
       (filter (\<lambda>p. weeklyHours p < 40) (pharmacists g))"

definition initialWeeklyHours :: "ScheduleGenerator \<Rightarrow> hours_ledger" where
  "initialWeeklyHours g =
     foldl (\<lambda>acc ph. setEntry (pharmacist_id ph) (weeklyHours ph) acc) [] (pharmacists g)"

text \<open>
  \<^verbatim>\<open>a.freeDay || a.fixedDayPatterns?.find(p => p.patternId === 'FREE_DAY')?.dayOfWeek
  || 'Monday'\<close> and the distance of that day from the current one in the week.
\<close>

definition dayOrder :: "string list" where
  "dayOrder = [''Monday'', ''Tuesday'', ''Wednesday'', ''Thursday'', ''Friday'', ''Saturday'',
               ''Sunday'']"

definition sortFreeDay :: "Pharmacist \<Rightarrow> string" where
  "sortFreeDay ph =
     (if freeDay ph \<noteq> [] then freeDay ph
      else case fixedDayPatterns ph of
             None \<Rightarrow> ''Monday''
           | Some dps \<Rightarrow>
               (case find (\<lambda>dp. snd dp = ''FREE_DAY'') dps of
                  Some dp \<Rightarrow> (if fst dp \<noteq> [] then fst dp else ''Monday'')
                | None \<Rightarrow> ''Monday''))"

definition freeDayDistance :: "string \<Rightarrow> Pharmacist \<Rightarrow> int" where
  "freeDayDistance dayName ph =
     \<bar>findIndex (\<lambda>d. d = sortFreeDay ph) dayOrder - findIndex (\<lambda>d. d = dayName) dayOrder\<bar>"

text \<open>
  \<^verbatim>\<open>getAvailablePharmacists\<close>: the workers of the generator (all active) that are not on
  their free day or Saturday off and, when full-time, have days and eight hours left;
  sorted, stably, by decreasing distance of their free day.
\<close>

definition hasHoursLeft :: "hours_ledger \<Rightarrow> Pharmacist \<Rightarrow> bool" where
  "hasHoursLeft ledger ph \<longleftrightarrow>
     (if weeklyHours ph \<ge> 40
      then (let daysWorked = \<lfloor>(weeklyHours ph - entryOf ledger (pharmacist_id ph)) / 8\<rfloor>;
                daysLeft = 5 - daysWorked
            in \<not> daysLeft \<le> 0 \<and> \<not> entryOf ledger (pharmacist_id ph) < 8)
      else True)"

definition getAvailablePharmacists ::
  "ScheduleGenerator \<Rightarrow> string \<Rightarrow> nat \<Rightarrow> hours_ledger \<Rightarrow> Pharmacist list" where
  "getAvailablePharmacists g dayName weekNumber ledger =
     sort_key (\<lambda>ph. - freeDayDistance dayName ph)
       (filter (\<lambda>ph. \<not> isFreeDay ph dayName
                     \<and> \<not> (dayName = ''Saturday'' \<and> freeSaturdayWeek ph = Some weekNumber)
                     \<and> hasHoursLeft ledger ph)
          (pharmacists g))"

text \<open>
  \<^verbatim>\<open>createShiftAssignments\<close> (lines 870-1627) is passed in: from the available workers, the
  rotation tracker, the day and the two ledgers it returns the assignments of the day, the
  tracker and the ledger of working days as it leaves them. Parts of it are modelled
  above (the hours of the day of a part-time worker, the scored choice of a pattern).
\<close>

type_synonym assigner =
  "ScheduleGenerator \<Rightarrow> Pharmacist list \<Rightarrow> rotation_tracker \<Rightarrow> nat \<Rightarrow> string \<Rightarrow> hours_ledger
     \<Rightarrow> days_ledger \<Rightarrow> Assignment list \<times> rotation_tracker \<times> days_ledger"

record week_state =
  ws_shifts :: "Shift list"
  ws_weeklyHours :: hours_ledger
  ws_tracker :: rotation_tracker
  ws_workingDays :: days_ledger

definition generateDayShifts ::
  "assigner \<Rightarrow> ScheduleGenerator \<Rightarrow> date \<Rightarrow> Pharmacist list \<Rightarrow> nat \<Rightarrow> string \<Rightarrow> week_state
     \<Rightarrow> week_state" where
  "generateDayShifts createShiftAssignments g dateStr available dayIndex dayName st =
     (let made = createShiftAssignments g available (ws_tracker st) dayIndex dayName
                   (ws_weeklyHours st) (ws_workingDays st);
          synthesized = synthesizeShifts (pharmacyRules g) dateStr (fst made) (ws_weeklyHours st)
      in \<lparr>ws_shifts = ws_shifts st @ fst synthesized,
          ws_weeklyHours = snd synthesized,
          ws_tracker = fst (snd made),
          ws_workingDays = snd (snd made)\<rparr>)"

definition rotationDay ::
  "assigner \<Rightarrow> ScheduleGenerator \<Rightarrow> date \<Rightarrow> nat \<Rightarrow> week_state \<Rightarrow> nat \<Rightarrow> week_state" where
  "rotationDay createShiftAssignments g monday weekNumber st dayIndex =
     (let dayName = dayNames ! dayIndex;
          currentDate = monday + int dayIndex;
          available = getAvailablePharmacists g dayName weekNumber (ws_weeklyHours st)
      in if length available < 3 then st
         else generateDayShifts createShiftAssignments g currentDate available dayIndex dayName st)"

definition generateWeekScheduleWithRotation ::
  "assigner \<Rightarrow> ScheduleGenerator \<Rightarrow> date \<Rightarrow> nat \<Rightarrow> rotation_tracker \<Rightarrow> Schedule" where
  "generateWeekScheduleWithRotation createShiftAssignments g monday weekNumber tracker =
     (let final = foldl (rotationDay createShiftAssignments g monday weekNumber)
                    \<lparr>ws_shifts = [], ws_weeklyHours = initialWeeklyHours g,
                     ws_tracker = tracker, ws_workingDays = initialWorkingDays g\<rparr>
                    [0..<6]
      in \<lparr>weekStart = monday, weekEnd = monday + 5, shifts = ws_shifts final, warnings = None\<rparr>)"

section \<open>Generators and choices of the examples\<close>

text \<open>
  Three full-time workers fixed to one pattern on Monday and free on the other days, the
  pattern having a morning part of one hour; choices that shuffle nothing and move no
  boundary; an assigner that gives every available worker the morning 09:00 to 12:30.
\<close>

definition shortPattern :: FixedShiftPattern where
  "shortPattern =
     \<lparr>pattern_id = ''P'', pattern_name = ''P'',
      morningShift = \<lparr>sub_startTime = ''09:00'', sub_endTime = ''10:00''\<rparr>,
      afternoonShift = \<lparr>sub_startTime = ''14:00'', sub_endTime = ''19:30''\<rparr>\<rparr>"

definition shortPatternRules :: PharmacyRules where
  "shortPatternRules = bareRules\<lparr>fixedShiftPatterns := Some [shortPattern]\<rparr>"



definition idChoices :: Choices where
  "idChoices =
     \<lparr>shufflePharmacists = (\<lambda>d r xs. xs), shufflePatterns = (\<lambda>d r xs. xs),
      movedTimes = (\<lambda>ws ph ss i. (startTime (ss ! i), endTime (ss ! i))),
      trimmedTimes = (\<lambda>ph ss i. (startTime (ss ! i), endTime (ss ! i)))\<rparr>"

definition morningAssigner :: assigner where
  "morningAssigner g available tracker dayIndex dayName ledger days =
     (map (\<lambda>p. \<lparr>a_pharmacist = p, a_shiftType = Morning, a_startTime = ''09:00'',
                  a_endTime = ''12:30'', a_patternId = None\<rparr>) available,
      tracker, days)"






text \<open>
  Three part-time workers, the first with Monday as free day; and the generator of
  Scenario B, whose one worker has 20 weekly hours and Sunday as free day.
\<close>

definition threeWorkers :: ScheduleGenerator where
  "threeWorkers =
     \<lparr>pharmacists = [partTimer ''w1'' 20 ''Monday'', partTimer ''w2'' 20 ''Sunday'',
                     partTimer ''w3'' 20 ''Sunday''],
      pharmacyRules = shortPatternRules\<rparr>"


section \<open>Evaluation of the time literals used in the examples\<close>

lemma timeToMinutes_literals:
  "timeToMinutes ''09:00'' = 540" "timeToMinutes ''10:00'' = 600"
  "timeToMinutes ''11:00'' = 660" "timeToMinutes ''12:00'' = 720"
  "timeToMinutes ''12:30'' = 750" "timeToMinutes ''13:00'' = 780"
  "timeToMinutes ''14:00'' = 840" "timeToMinutes ''17:30'' = 1050"
  "timeToMinutes ''19:30'' = 1170"
  by code_simp+

lemma toFixed1_literals:
  "toFixed1 1 = ''1.0''"
  by code_simp+

section \<open>The coverage check refines its specification\<close>














lemma upt_six: "[0..<6] = [0, 1, 2, 3, 4, 5::nat]"
  by (simp add: upt_rec)

section \<open>The validator and the order of the shift list\<close>























lemma shortShiftsWeek_day0:
  "dayWarnings [] bareRules (shiftsOn 100 (shifts shortShiftsWeek)) =
     [''Shift too short: w2 has a morning shift of 1.0h (minimum: 2h)'',
      ''Shift too short: w3 has a morning shift of 1.0h (minimum: 2h)'']"
  by (simp add: dayWarnings_def bareRules_def shiftsOn_def shortShiftsWeek_def mkShift_def
      shiftWarnings_def calculateShiftHours_def timeToMinutes_literals toFixed1_literals
      displayName_def shiftTypeName_def pharmacistDailyHours_def addShiftHours_def
      dailyHoursWarning_def Let_def)






section \<open>The warnings map\<close>

lemma in_week_iff:
  "(\<exists>i<6::nat. d = w + int i) \<longleftrightarrow> d \<in> {w, w + 1, w + 2, w + 3, w + 4, w + 5}"
  by (simp; presburger)

text \<open>
  C10. The warnings map has a key for a date exactly when the date is one of the six days
  of the week and its list of warnings is not empty; the list stored under the key is that
  non-empty list. A day without warnings is an absent key, never an empty list.
\<close>

theorem validateSchedule_keys:
  "map_of (validateSchedule workers rules schedule) d =
     (if (\<exists>i<6. d = weekStart schedule + int i)
         \<and> dayWarnings workers rules (shiftsOn d (shifts schedule)) \<noteq> []
      then Some (dayWarnings workers rules (shiftsOn d (shifts schedule)))
      else None)"
  using in_week_iff [of d "weekStart schedule"]
  by (auto simp: validateSchedule_def validateDay_def Let_def upt_six)


theorem validateSchedule_keys_witness:
  "(\<exists>i<6. (100::int) = weekStart shortShiftsWeek + int i)
   \<and> dayWarnings [] bareRules (shiftsOn 100 (shifts shortShiftsWeek)) \<noteq> []
   \<and> map_of (validateSchedule [] bareRules shortShiftsWeek) 100 =
       Some [''Shift too short: w2 has a morning shift of 1.0h (minimum: 2h)'',
             ''Shift too short: w3 has a morning shift of 1.0h (minimum: 2h)'']
   \<and> map_of (validateSchedule [] bareRules shortShiftsWeek) 106 = None"
proof -
  have w: "weekStart shortShiftsWeek = 100"
    by (simp add: shortShiftsWeek_def)
  have e: "\<exists>i<6. (100::int) = weekStart shortShiftsWeek + int i"
    unfolding w by (rule exI [of _ 0]) simp
  have n: "\<not> (\<exists>i<6. (106::int) = weekStart shortShiftsWeek + int i)"
    unfolding w by simp
  show ?thesis
    using e n validateSchedule_keys [of "[]" bareRules shortShiftsWeek 100]
      validateSchedule_keys [of "[]" bareRules shortShiftsWeek 106]
    by (simp add: shortShiftsWeek_day0)
qed

section \<open>The hours targeted for a part-time worker\<close>



section \<open>The scored pattern has the greatest score\<close>












section \<open>The resolver never returns more warnings\<close>

lemma resolveLoop_invariant:
  assumes "resolveLoop g rotationWeek patterns maxAttempts attempt (best, n) = (best', n')"
    and "\<And>s. best = Some s \<Longrightarrow>
           warningCount (validateSchedule (pharmacists g) (pharmacyRules g) s) = n \<and> n < n0"
    and "n \<le> n0"
  shows "n' \<le> n0 \<and> (\<forall>s. best' = Some s \<longrightarrow>
           warningCount (validateSchedule (pharmacists g) (pharmacyRules g) s) = n' \<and> n' < n0)"
  using assms
proof (induction "maxAttempts - attempt" arbitrary: attempt best n)
  case 0
  then have "(best', n') = (best, n)"
    by (subst (asm) resolveLoop.simps) simp
  then show ?case using "0.prems"(2,3) by auto
next
  case (Suc k)
  then have a: "attempt < maxAttempts" and k: "k = maxAttempts - (attempt + 1)" by simp_all
  define test where "test = rotationWeek (attemptTracker g patterns attempt)"
  define cnt where "cnt = warningCount (validateSchedule (pharmacists g) (pharmacyRules g) test)"
  have unfold: "resolveLoop g rotationWeek patterns maxAttempts attempt (best, n) =
      (if cnt < n
       then (if cnt = 0 then (Some test, cnt)
             else resolveLoop g rotationWeek patterns maxAttempts (attempt + 1) (Some test, cnt))
       else resolveLoop g rotationWeek patterns maxAttempts (attempt + 1) (best, n))"
    using a by (subst resolveLoop.simps) (simp add: Let_def test_def cnt_def)
  show ?case
  proof (cases "cnt < n")
    case lt: True
    show ?thesis
    proof (cases "cnt = 0")
      case True
      then have "(best', n') = (Some test, cnt)"
        using Suc.prems(1) lt unfolding unfold by simp
      then show ?thesis
        using lt Suc.prems(3) by (auto simp: cnt_def)
    next
      case False
      have r: "resolveLoop g rotationWeek patterns maxAttempts (attempt + 1) (Some test, cnt)
               = (best', n')"
        using Suc.prems(1) lt False unfolding unfold by simp
      show ?thesis
      proof (rule Suc.hyps(1) [OF k r])
        show "\<And>s. Some test = Some s \<Longrightarrow>
           warningCount (validateSchedule (pharmacists g) (pharmacyRules g) s) = cnt \<and> cnt < n0"
          using lt Suc.prems(3) by (auto simp: cnt_def)
        show "cnt \<le> n0" using lt Suc.prems(3) by simp
      qed
    qed
  next
    case False
    have r: "resolveLoop g rotationWeek patterns maxAttempts (attempt + 1) (best, n) = (best', n')"
      using Suc.prems(1) False unfolding unfold by simp
    show ?thesis
      by (rule Suc.hyps(1) [OF k r Suc.prems(2) Suc.prems(3)])
  qed
qed


lemma resolveWeek_warningCount:
  assumes "hasWarnings (validateSchedule (pharmacists g) (pharmacyRules g) initial)"
  shows "\<exists>ws. warnings (resolveWeek g rotationWeek initial) = Some ws
           \<and> ws = validateSchedule (pharmacists g) (pharmacyRules g)
                    (resolveWeek g rotationWeek initial)
           \<and> warningCount ws
               \<le> warningCount (validateSchedule (pharmacists g) (pharmacyRules g) initial)"
proof -
  define n0 where "n0 = warningCount (validateSchedule (pharmacists g) (pharmacyRules g) initial)"
  have "validateDay ps rules (s\<lparr>warnings := w\<rparr>) = validateDay ps rules s" for ps rules s w
    by (rule ext) (simp add: validateDay_def)
  then have v: "validateSchedule ps rules (s\<lparr>warnings := w\<rparr>) = validateSchedule ps rules s"
    for ps rules s w
    by (simp add: validateSchedule_def)
  show ?thesis
  proof (cases "tryResolveWarnings g rotationWeek (validateSchedule (pharmacists g) (pharmacyRules g) initial)")
    case None
    then show ?thesis using assms by (simp add: resolveWeek_def Let_def v)
  next
    case (Some best)
    then obtain patterns where p: "fixedShiftPatterns (pharmacyRules g) = Some patterns"
      "length patterns \<noteq> 0"
      by (auto simp: tryResolveWarnings_def split: option.splits if_splits)
    obtain n' where r: "resolveLoop g rotationWeek patterns
        (min (length patterns * length (reassignablePharmacists g) * 2) 50) 0 (None, n0)
        = (Some best, n')"
      using Some p by (cases "resolveLoop g rotationWeek patterns
        (min (length patterns * length (reassignablePharmacists g) * 2) 50) 0 (None, n0)")
        (auto simp: tryResolveWarnings_def Let_def n0_def)
    from resolveLoop_invariant [OF r, of n0]
    have "warningCount (validateSchedule (pharmacists g) (pharmacyRules g) best) < n0"
      by auto
    then show ?thesis
      using assms Some by (simp add: resolveWeek_def Let_def v n0_def)
  qed
qed


text \<open>
  C3. For every week whose first-pass schedule has at least one warning, the schedule the
  generator returns for the week (the resolver's, when it found one, else the first one)
  carries the warnings validation finds on it, and their total is at most the total of the
  warnings of the first-pass schedule.
\<close>

theorem generateSchedule_warningCount:
  assumes "week < weeks"
    and "hasWarnings
           (validateSchedule (pharmacists g0) (adaptBreakDuration (pharmacyRules g0))
              (firstPass (g0\<lparr>pharmacyRules := adaptBreakDuration (pharmacyRules g0)\<rparr>)
                 (mondayOf startDate + int week * 7) week))"
  shows "\<exists>ws. warnings (fst (generateSchedule firstPass
                    rotationPass g0 weeks startDate) ! week) = Some ws
           \<and> ws = validateSchedule (pharmacists g0) (adaptBreakDuration (pharmacyRules g0))
                    (fst (generateSchedule firstPass
                       rotationPass g0 weeks startDate) ! week)
           \<and> warningCount ws
               \<le> warningCount
                    (validateSchedule (pharmacists g0) (adaptBreakDuration (pharmacyRules g0))
                       (firstPass
                          (g0\<lparr>pharmacyRules := adaptBreakDuration (pharmacyRules g0)\<rparr>)
                          (mondayOf startDate + int week * 7) week))"
proof -
  define g where "g = g0\<lparr>pharmacyRules := adaptBreakDuration (pharmacyRules g0)\<rparr>"
  have s: "pharmacists g = pharmacists g0" "pharmacyRules g = adaptBreakDuration (pharmacyRules g0)"
    by (simp_all add: g_def)
  have "fst (generateSchedule firstPass rotationPass g0 weeks startDate)
          ! week
        = resolveWeek g (rotationPass g (mondayOf startDate + int week * 7) week)
            (firstPass g (mondayOf startDate + int week * 7) week)"
    using assms(1) by (simp add: generateSchedule_def Let_def g_def)
  moreover have "hasWarnings (validateSchedule (pharmacists g) (pharmacyRules g)
      (firstPass g (mondayOf startDate + int week * 7) week))"
    using assms(2) by (simp add: s g_def)
  ultimately show ?thesis
    using resolveWeek_warningCount [of g "firstPass g (mondayOf startDate + int week * 7) week"
        "rotationPass g (mondayOf startDate + int week * 7) week"]
    unfolding s g_def [symmetric] by simp
qed


lemma adaptBreakDuration_patternRules: "adaptBreakDuration patternRules = patternRules"
  by (simp add: adaptBreakDuration_def patternRules_def bareRules_def calculateShiftHours_def
      timeToMinutes_literals Let_def)

lemma validate_shortShiftsWeek_patternRules:
  "validateSchedule (pharmacists oneWorker) patternRules shortShiftsWeek =
     [(100, [''Shift too short: w2 has a morning shift of 1.0h (minimum: 2h)'',
             ''Shift too short: w3 has a morning shift of 1.0h (minimum: 2h)''])]"
proof -
  have d: "dayWarnings (pharmacists oneWorker) patternRules (shiftsOn d (shifts shortShiftsWeek)) =
      (if d = 100
       then [''Shift too short: w2 has a morning shift of 1.0h (minimum: 2h)'',
             ''Shift too short: w3 has a morning shift of 1.0h (minimum: 2h)'']
       else [])" for d
    by (simp add: dayWarnings_def patternRules_def bareRules_def shiftsOn_def shortShiftsWeek_def
        mkShift_def shiftWarnings_def calculateShiftHours_def timeToMinutes_literals
        toFixed1_literals displayName_def oneWorker_def partTimer_def shiftTypeName_def
        pharmacistDailyHours_def addShiftHours_def dailyHoursWarning_def Let_def)
  have "weekStart shortShiftsWeek = 100"
    by (simp add: shortShiftsWeek_def)
  then show ?thesis
    by (simp add: validateSchedule_def validateDay_def upt_six d Let_def)
qed

lemma validate_emptyWeek: "validateSchedule ps patternRules emptyWeek = []"
  by (simp add: validateSchedule_def validateDay_def upt_six dayWarnings_def patternRules_def
      bareRules_def shiftsOn_def emptyWeek_def pharmacistDailyHours_def Let_def)

theorem generateSchedule_warningCount_witness:
  "(0 :: nat) < 1
   \<and> hasWarnings
         (validateSchedule (pharmacists oneWorker) (adaptBreakDuration (pharmacyRules oneWorker))
            (constFirstPass shortShiftsWeek
               (oneWorker\<lparr>pharmacyRules := adaptBreakDuration (pharmacyRules oneWorker)\<rparr>)
               (mondayOf 100 + int 0 * 7) 0))
   \<and> warningCount
         (validateSchedule (pharmacists oneWorker) (adaptBreakDuration (pharmacyRules oneWorker))
            (constFirstPass shortShiftsWeek
               (oneWorker\<lparr>pharmacyRules := adaptBreakDuration (pharmacyRules oneWorker)\<rparr>)
               (mondayOf 100 + int 0 * 7) 0)) = 2
   \<and> (\<exists>ws. warnings (fst (generateSchedule (constFirstPass shortShiftsWeek)
                    (constRotation emptyWeek) oneWorker 1 100) ! 0) = Some ws
           \<and> warningCount ws \<le> 2)"
proof -
  have r: "pharmacyRules oneWorker = patternRules"
    by (simp add: oneWorker_def)
  have h: "hasWarnings
         (validateSchedule (pharmacists oneWorker) (adaptBreakDuration (pharmacyRules oneWorker))
            (constFirstPass shortShiftsWeek
               (oneWorker\<lparr>pharmacyRules := adaptBreakDuration (pharmacyRules oneWorker)\<rparr>)
               (mondayOf 100 + int 0 * 7) 0))"
    by (simp add: r adaptBreakDuration_patternRules constFirstPass_def
        validate_shortShiftsWeek_patternRules hasWarnings_def)
  have c: "warningCount
         (validateSchedule (pharmacists oneWorker) (adaptBreakDuration (pharmacyRules oneWorker))
            (constFirstPass shortShiftsWeek
               (oneWorker\<lparr>pharmacyRules := adaptBreakDuration (pharmacyRules oneWorker)\<rparr>)
               (mondayOf 100 + int 0 * 7) 0)) = 2"
    by (simp add: r adaptBreakDuration_patternRules constFirstPass_def
        validate_shortShiftsWeek_patternRules warningCount_def)
  show ?thesis
    using h c generateSchedule_warningCount [of 0 1 oneWorker "constFirstPass shortShiftsWeek" 100
        "constRotation emptyWeek", OF _ h]
    by auto
qed

lemma resolved_example:
  "fst (generateSchedule (constFirstPass shortShiftsWeek) (constRotation emptyWeek) oneWorker 1 100)
     = [emptyWeek\<lparr>warnings := Some []\<rparr>]"
proof -
  have r: "pharmacyRules oneWorker = patternRules"
    by (simp add: oneWorker_def)
  have g: "oneWorker\<lparr>pharmacyRules := adaptBreakDuration (pharmacyRules oneWorker)\<rparr> = oneWorker"
    by (simp add: r adaptBreakDuration_patternRules oneWorker_def)
  have n: "length (reassignablePharmacists oneWorker) = 1"
    by (simp add: reassignablePharmacists_def oneWorker_def partTimer_def)
  have l: "resolveLoop oneWorker (\<lambda>tracker. emptyWeek) [patternA, patternB] 4 0 (None, k)
           = (Some emptyWeek, 0)" if "0 < k" for k
    using that by (subst resolveLoop.simps) (simp add: r validate_emptyWeek warningCount_def)
  have p: "fixedShiftPatterns patternRules = Some [patternA, patternB]"
    by (simp add: patternRules_def)
  have t: "tryResolveWarnings oneWorker (\<lambda>tracker. emptyWeek)
             (validateSchedule (pharmacists oneWorker) patternRules shortShiftsWeek)
           = Some emptyWeek"
    by (simp add: tryResolveWarnings_def r p n Let_def
        validate_shortShiftsWeek_patternRules warningCount_def l)
  have w: "resolveWeek oneWorker (\<lambda>tracker. emptyWeek) shortShiftsWeek
           = emptyWeek\<lparr>warnings := Some []\<rparr>"
    by (simp add: resolveWeek_def r Let_def t [unfolded validate_shortShiftsWeek_patternRules]
        validate_shortShiftsWeek_patternRules hasWarnings_def validate_emptyWeek)
  have "constRotation emptyWeek oneWorker m k = (\<lambda>tracker. emptyWeek)" for m k
    by (rule ext) (simp add: constRotation_def)
  then show ?thesis
    by (simp add: generateSchedule_def Let_def g constFirstPass_def w)
qed


section \<open>What generation writes to its inputs\<close>



section \<open>Rendering a minute offset and reading it back\<close>










section \<open>Days with fewer than three workers, and failures\<close>

lemma patternShifts_date: "s \<in> set (patternShifts dateStr pid pattern) \<Longrightarrow> shift_date s = dateStr"
  by (auto simp: patternShifts_def)

lemma assignShuffled_dates:
  assumes "assignShuffled dateStr shuffledPatterns phs st = Inr st'"
    and "\<forall>s \<in> set (fst st). shift_date s = dateStr"
  shows "\<forall>s \<in> set (fst st'). shift_date s = dateStr"
  using assms
proof (induction phs arbitrary: st)
  case Nil
  then show ?case by simp
next
  case (Cons ph phs)
  from Cons.prems(1) obtain pattern where
    p: "assignedPattern (snd st) shuffledPatterns (pharmacist_id ph) = Inr pattern"
    and r: "assignShuffled dateStr shuffledPatterns phs
            (fst st @ patternShifts dateStr (pharmacist_id ph) pattern,
             bumpUsage (pharmacist_id ph) (pattern_id pattern) (snd st)) = Inr st'"
    by (auto split: sum.splits)
  show ?case
    by (rule Cons.IH [OF r]) (use Cons.prems(2) patternShifts_date in auto)
qed

lemma assignFixed_dates:
  assumes "\<forall>s \<in> set (fst st). shift_date s = dateStr"
  shows "\<forall>s \<in> set (fst (assignFixed dateStr fixed st)). shift_date s = dateStr"
  using assms unfolding assignFixed_def
proof (induction fixed arbitrary: st)
  case Nil
  then show ?case by simp
next
  case (Cons fa fixed)
  show ?case
    unfolding foldl_Cons
    by (rule Cons.IH) (use Cons.prems patternShifts_date in auto)
qed

lemma assignedPattern_ok:
  "shuffledPatterns \<noteq> [] \<Longrightarrow> \<exists>pattern. assignedPattern usage shuffledPatterns pid = Inr pattern"
  by (cases shuffledPatterns) (auto simp: assignedPattern_def split: option.splits)

lemma assignShuffled_ok:
  "shuffledPatterns \<noteq> [] \<Longrightarrow> \<exists>st'. assignShuffled dateStr shuffledPatterns phs st = Inr st'"
proof (induction phs arbitrary: st)
  case Nil
  then show ?case by simp
next
  case (Cons ph phs)
  obtain pattern where "assignedPattern (snd st) shuffledPatterns (pharmacist_id ph) = Inr pattern"
    using assignedPattern_ok [OF Cons.prems] by blast
  then show ?case using Cons.IH [OF Cons.prems] by simp
qed

lemma retryLoop_ok_dates:
  assumes nonempty: "\<And>r. shufflePatterns choices dayIndex r patterns \<noteq> []"
    and "\<forall>s \<in> set (fst st). shift_date s = dateStr"
  shows "\<exists>st'. retryLoop choices g monday dayIndex dateStr shiftsSoFar fixed remaining patterns
                 retry st = Inr st'
            \<and> (\<forall>s \<in> set (fst st'). shift_date s = dateStr)"
  using assms(2)
proof (induction "50 - retry" arbitrary: retry st)
  case 0
  then show ?case by (subst retryLoop.simps) simp
next
  case (Suc k)
  then have lt: "retry < 50" and k: "k = 50 - (retry + 1)" by simp_all
  obtain assigned where a: "assignShuffled dateStr (shufflePatterns choices dayIndex retry patterns)
      (shufflePharmacists choices dayIndex retry remaining) ([], snd (snd st)) = Inr assigned"
    using assignShuffled_ok [OF nonempty] by blast
  have ad: "\<forall>s \<in> set (fst assigned). shift_date s = dateStr"
    using assignShuffled_dates [OF a] by simp
  have fd: "\<forall>s \<in> set (fst (assignFixed dateStr fixed assigned)). shift_date s = dateStr"
    by (rule assignFixed_dates [OF ad])
  define dayWs where "dayWs =
      (case map_of (validateSchedule (pharmacists g) (pharmacyRules g)
                      \<lparr>weekStart = monday, weekEnd = monday + 5,
                       shifts = shiftsSoFar @ fst (assignFixed dateStr fixed assigned),
                       warnings = None\<rparr>) dateStr of
         Some ws \<Rightarrow> ws | None \<Rightarrow> [])"
  show ?case
  proof (cases "length dayWs = 0")
    case True
    then have "retryLoop choices g monday dayIndex dateStr shiftsSoFar fixed remaining patterns
        retry st
        = Inr (fst (assignFixed dateStr fixed assigned), fst (snd st),
               snd (assignFixed dateStr fixed assigned))"
      using lt a by (subst retryLoop.simps) (simp add: Let_def dayWs_def)
    then show ?thesis using fd by simp
  next
    case False
    define best where "best = (if retry = 0 \<or> length dayWs < length (fst (snd st))
        then (fst (assignFixed dateStr fixed assigned), dayWs) else (fst st, fst (snd st)))"
    have u: "retryLoop choices g monday dayIndex dateStr shiftsSoFar fixed remaining patterns
        retry st
        = retryLoop choices g monday dayIndex dateStr shiftsSoFar fixed remaining patterns
            (retry + 1)
            (fst best, snd best,
             resetUsage shiftsSoFar fixed remaining patterns
               (snd (assignFixed dateStr fixed assigned)))"
      using lt a False
      by (subst retryLoop.simps) (simp add: Let_def dayWs_def best_def)
    have "\<forall>s \<in> set (fst best). shift_date s = dateStr"
      using fd Suc.prems by (simp add: best_def)
    then show ?thesis
      unfolding u using Suc.hyps(1) [OF k] by simp
  qed
qed

lemma retime_dates: "map shift_date (retime newTimes pid ss) = map shift_date ss"
proof -
  have "map shift_date (map (\<lambda>(i, s). if pharmacistId s = pid
          then s\<lparr>startTime := fst (newTimes i), endTime := snd (newTimes i)\<rparr> else s) xs)
        = map shift_date (map snd xs)" for xs :: "(nat \<times> Shift) list"
    by (induction xs) auto
  from this [of "enumerate 0 ss"] show ?thesis
    by (simp only: retime_def map_snd_enumerate)
qed

lemma adjustPartTimeShiftsForWarnings_dates:
  "map shift_date (adjustPartTimeShiftsForWarnings choices g ss ws) = map shift_date ss"
proof -
  have "map shift_date (foldl (\<lambda>ss ph. retime (movedTimes choices ws ph ss) (pharmacist_id ph) ss)
          ss phs) = map shift_date ss" for phs
    by (induction phs arbitrary: ss) (simp_all add: retime_dates)
  then show ?thesis by (simp add: adjustPartTimeShiftsForWarnings_def)
qed

lemma adjustPartTimeHours_dates:
  "map shift_date (adjustPartTimeHours choices g ss) = map shift_date ss"
proof -
  have "map shift_date (foldl (\<lambda>ss ph. retime (trimmedTimes choices ph ss) (pharmacist_id ph) ss)
          ss phs) = map shift_date ss" for phs
    by (induction phs arbitrary: ss) (simp_all add: retime_dates)
  then show ?thesis by (simp add: adjustPartTimeHours_def)
qed


lemma firstPassDay_ok:
  assumes nonempty: "\<And>d r ps. ps \<noteq> [] \<Longrightarrow> shufflePatterns choices d r ps \<noteq> []"
  shows "\<exists>st' new. firstPassDay choices g monday weekNumber st dayIndex = Inr st'
            \<and> fst st' = fst st @ new
            \<and> (\<forall>s \<in> set new. shift_date s = monday + int dayIndex)
            \<and> (length (availablePharmacists g (dayNames ! dayIndex) weekNumber) < 3 \<longrightarrow> new = [])"
proof -
  define available where "available = availablePharmacists g (dayNames ! dayIndex) weekNumber"
  define patterns where "patterns = (case fixedShiftPatterns (pharmacyRules g) of
                              Some ps \<Rightarrow> ps | None \<Rightarrow> [])"
  show ?thesis
  proof (cases "length available < 3 \<or> length patterns = 0")
    case True
    then have "firstPassDay choices g monday weekNumber st dayIndex = Inr st"
      by (auto simp: firstPassDay_def Let_def available_def patterns_def)
    then show ?thesis by simp
  next
    case False
    then have ne: "patterns \<noteq> []" and av: "\<not> length available < 3" by auto
    have "\<exists>st'. retryLoop choices g monday dayIndex (monday + int dayIndex) (fst st)
        (fixedAssignments (pharmacyRules g) (dayNames ! dayIndex) available)
        (remainingPharmacists (pharmacyRules g) (dayNames ! dayIndex) available)
        patterns 0 ([], [], snd st) = Inr st'
        \<and> (\<forall>s \<in> set (fst st'). shift_date s = monday + int dayIndex)"
      by (rule retryLoop_ok_dates) (use nonempty [OF ne] in simp_all)
    then obtain result where r: "retryLoop choices g monday dayIndex (monday + int dayIndex) (fst st)
        (fixedAssignments (pharmacyRules g) (dayNames ! dayIndex) available)
        (remainingPharmacists (pharmacyRules g) (dayNames ! dayIndex) available)
        patterns 0 ([], [], snd st) = Inr result"
      and rd: "\<forall>s \<in> set (fst result). shift_date s = monday + int dayIndex"
      by blast
    define best where "best =
        (if length (fst (snd result)) > 0
         then adjustPartTimeShiftsForWarnings choices g (fst result) (fst (snd result))
         else fst result)"
    have "map shift_date best = map shift_date (fst result)"
      by (simp add: best_def adjustPartTimeShiftsForWarnings_dates)
    then have "set (map shift_date best) = set (map shift_date (fst result))" by simp
    then have bd: "\<forall>s \<in> set best. shift_date s = monday + int dayIndex"
      using rd by (metis (no_types, lifting) image_iff list.set_map)
    have "firstPassDay choices g monday weekNumber st dayIndex
          = Inr (fst st @ best, countDayPatterns best (snd (snd result)))"
      using False r
      by (simp add: firstPassDay_def Let_def available_def [symmetric] patterns_def [symmetric]
          best_def)
    then show ?thesis using bd av by (simp add: available_def)
  qed
qed

lemma firstPassDays_ok:
  assumes nonempty: "\<And>d r ps. ps \<noteq> [] \<Longrightarrow> shufflePatterns choices d r ps \<noteq> []"
  shows "\<exists>st'. firstPassDays choices g monday weekNumber days st = Inr st'
            \<and> (\<forall>s \<in> set (fst st'). s \<in> set (fst st)
                  \<or> (\<exists>d \<in> set days. shift_date s = monday + int d
                        \<and> \<not> length (availablePharmacists g (dayNames ! d) weekNumber) < 3))"
proof (induction days arbitrary: st)
  case Nil
  then show ?case by simp
next
  case (Cons d days)
  obtain st1 new where d: "firstPassDay choices g monday weekNumber st d = Inr st1"
    and n: "fst st1 = fst st @ new" "\<forall>s \<in> set new. shift_date s = monday + int d"
      "length (availablePharmacists g (dayNames ! d) weekNumber) < 3 \<longrightarrow> new = []"
    using firstPassDay_ok [OF nonempty, of g monday weekNumber st d] by blast
  obtain st' where r: "firstPassDays choices g monday weekNumber days st1 = Inr st'"
    and i: "\<forall>s \<in> set (fst st'). s \<in> set (fst st1)
              \<or> (\<exists>d \<in> set days. shift_date s = monday + int d
                    \<and> \<not> length (availablePharmacists g (dayNames ! d) weekNumber) < 3)"
    using Cons.IH [of st1] by blast
  have "firstPassDays choices g monday weekNumber (d # days) st = Inr st'"
    using d r by simp
  moreover have "s \<in> set (fst st)
      \<or> (\<exists>d' \<in> set (d # days). shift_date s = monday + int d'
            \<and> \<not> length (availablePharmacists g (dayNames ! d') weekNumber) < 3)"
    if s: "s \<in> set (fst st')" for s
  proof -
    from i s consider "s \<in> set (fst st)" | "s \<in> set new"
      | "\<exists>d \<in> set days. shift_date s = monday + int d
            \<and> \<not> length (availablePharmacists g (dayNames ! d) weekNumber) < 3"
      using n(1) by auto
    then show ?thesis
    proof cases
      case 2
      then have "new \<noteq> []" by auto
      with n(2,3) 2 show ?thesis by auto
    qed auto
  qed
  ultimately show ?case by blast
qed

lemma generateWeekSchedule_ok:
  assumes nonempty: "\<And>d r ps. ps \<noteq> [] \<Longrightarrow> shufflePatterns choices d r ps \<noteq> []"
  shows "\<exists>schedule. generateWeekSchedule choices g monday weekNumber = Inr schedule
            \<and> (\<forall>s \<in> set (shifts schedule). \<exists>d < 6. shift_date s = monday + int d
                  \<and> \<not> length (availablePharmacists g (dayNames ! d) weekNumber) < 3)"
proof -
  obtain st' where r: "firstPassDays choices g monday weekNumber [0..<6] ([], \<lambda>pid patId. 0) = Inr st'"
    and i: "\<forall>s \<in> set (fst st'). s \<in> set (fst ([] :: Shift list, (\<lambda>pid patId. 0) :: pattern_usage))
              \<or> (\<exists>d \<in> set [0..<6]. shift_date s = monday + int d
                    \<and> \<not> length (availablePharmacists g (dayNames ! d) weekNumber) < 3)"
    using firstPassDays_ok [OF nonempty, of g monday weekNumber "[0..<6]" "([], \<lambda>pid patId. 0)"]
    by blast
  have "set (map shift_date (adjustPartTimeHours choices g (fst st'))) = set (map shift_date (fst st'))"
    by (simp add: adjustPartTimeHours_dates)
  then have "\<forall>s \<in> set (adjustPartTimeHours choices g (fst st')).
               \<exists>s' \<in> set (fst st'). shift_date s = shift_date s'"
    by (metis (no_types, lifting) image_iff list.set_map)
  with i have "\<forall>s \<in> set (adjustPartTimeHours choices g (fst st')).
      \<exists>d < 6. shift_date s = monday + int d
        \<and> \<not> length (availablePharmacists g (dayNames ! d) weekNumber) < 3"
    by (simp add: Bex_def) metis
  then show ?thesis
    using r by (simp add: generateWeekSchedule_def)
qed


lemma synthesize_date: "s \<in> set (fst (synthesize rules dateStr a)) \<Longrightarrow> shift_date s = dateStr"
  by (auto simp: synthesize_def synthesizeMorning_def synthesizeAfternoon_def synthesizeFull_def
      newShift_def Let_def split: shift_type.splits if_splits)

lemma synthesizeShifts_dates:
  "s \<in> set (fst (synthesizeShifts rules dateStr as ledger)) \<Longrightarrow> shift_date s = dateStr"
proof -
  have "\<forall>s \<in> set (fst st). shift_date s = dateStr \<Longrightarrow>
        \<forall>s \<in> set (fst (foldl (synthesizeStep rules dateStr) st as)). shift_date s = dateStr"
    for st
  proof (induction as arbitrary: st)
    case Nil
    then show ?case by simp
  next
    case (Cons a as)
    show ?case
      unfolding foldl_Cons
      by (rule Cons.IH) (use Cons.prems synthesize_date in \<open>auto simp: synthesizeStep_def Let_def\<close>)
  qed
  from this [of "([], ledger)"] show "s \<in> set (fst (synthesizeShifts rules dateStr as ledger))
      \<Longrightarrow> shift_date s = dateStr"
    by (simp add: synthesizeShifts_def)
qed

lemma getAvailablePharmacists_length:
  assumes "\<forall>p \<in> set (pharmacists g). isActive p"
  shows "length (getAvailablePharmacists g dayName weekNumber ledger)
         \<le> length (availablePharmacists g dayName weekNumber)"
proof -
  define ys where "ys = filter (availableOn dayName weekNumber) (pharmacists g)"
  have "filter (\<lambda>ph. \<not> isFreeDay ph dayName
                     \<and> \<not> (dayName = ''Saturday'' \<and> freeSaturdayWeek ph = Some weekNumber)
                     \<and> hasHoursLeft ledger ph) (pharmacists g)
        = filter (hasHoursLeft ledger) ys"
    using assms unfolding ys_def filter_filter by (auto simp: availableOn_def intro: filter_cong)
  then have "length (getAvailablePharmacists g dayName weekNumber ledger)
        = length (filter (hasHoursLeft ledger) ys)"
    by (simp add: getAvailablePharmacists_def)
  also have "\<dots> \<le> length ys" by (rule length_filter_le)
  finally show ?thesis by (simp add: availablePharmacists_def ys_def)
qed

lemma rotationDay_shifts:
  assumes "\<forall>p \<in> set (pharmacists g). isActive p"
  shows "\<exists>new. ws_shifts (rotationDay csa g monday weekNumber st dayIndex) = ws_shifts st @ new
            \<and> (\<forall>s \<in> set new. shift_date s = monday + int dayIndex)
            \<and> (length (availablePharmacists g (dayNames ! dayIndex) weekNumber) < 3 \<longrightarrow> new = [])"
proof (cases "length (getAvailablePharmacists g (dayNames ! dayIndex) weekNumber (ws_weeklyHours st)) < 3")
  case True
  then show ?thesis by (simp add: rotationDay_def Let_def)
next
  case False
  then have "\<not> length (availablePharmacists g (dayNames ! dayIndex) weekNumber) < 3"
    using getAvailablePharmacists_length [OF assms, of "dayNames ! dayIndex" weekNumber
        "ws_weeklyHours st"] by simp
  then show ?thesis
    using False synthesizeShifts_dates
    by (auto simp: rotationDay_def generateDayShifts_def Let_def)
qed

lemma rotationDays_shifts:
  assumes "\<forall>p \<in> set (pharmacists g). isActive p"
  shows "\<forall>s \<in> set (ws_shifts (foldl (rotationDay csa g monday weekNumber) st days)).
           s \<in> set (ws_shifts st)
           \<or> (\<exists>d \<in> set days. shift_date s = monday + int d
                 \<and> \<not> length (availablePharmacists g (dayNames ! d) weekNumber) < 3)"
proof (induction days arbitrary: st)
  case Nil
  then show ?case by simp
next
  case (Cons d days)
  obtain new where n: "ws_shifts (rotationDay csa g monday weekNumber st d) = ws_shifts st @ new"
    "\<forall>s \<in> set new. shift_date s = monday + int d"
    "length (availablePharmacists g (dayNames ! d) weekNumber) < 3 \<longrightarrow> new = []"
    using rotationDay_shifts [OF assms, of csa monday weekNumber st d] by blast
  show ?case
  proof
    fix s
    assume "s \<in> set (ws_shifts (foldl (rotationDay csa g monday weekNumber) st (d # days)))"
    then consider "s \<in> set (ws_shifts st)" | "s \<in> set new"
      | "\<exists>d \<in> set days. shift_date s = monday + int d
            \<and> \<not> length (availablePharmacists g (dayNames ! d) weekNumber) < 3"
      using Cons.IH [of "rotationDay csa g monday weekNumber st d"] n(1) by auto
    then show "s \<in> set (ws_shifts st)
        \<or> (\<exists>d' \<in> set (d # days). shift_date s = monday + int d'
              \<and> \<not> length (availablePharmacists g (dayNames ! d') weekNumber) < 3)"
    proof cases
      case 2
      then have "new \<noteq> []" by auto
      with n(2,3) 2 show ?thesis by auto
    qed auto
  qed
qed

text \<open>
  C7. Week generation, in the first pass and in the rotation variant alike, returns a
  schedule and raises nothing, and every shift of the schedule is dated one of the six
  days on which at least three workers were available (after leaving out the inactive,
  those on their free day and those off on that Saturday): a day with fewer adds no shift.
  Violations of the rules are what the validator lists for the schedule.
\<close>

theorem week_generation_skips_short_days:
  assumes shuffle: "\<forall>d r ps. length (shufflePatterns choices d r ps) = length ps"
    and active: "\<forall>p \<in> set (pharmacists g). isActive p"
  shows "\<exists>schedule.
           generateWeekSchedule choices g monday weekNumber = Inr schedule
           \<and> (\<forall>dayIndex < 6.
                 length (availablePharmacists g (dayNames ! dayIndex) weekNumber) < 3 \<longrightarrow>
                 (\<forall>s \<in> set (shifts schedule). shift_date s \<noteq> monday + int dayIndex)
                 \<and> (\<forall>s \<in> set (shifts (generateWeekScheduleWithRotation createShiftAssignments
                                          g monday weekNumber tracker)).
                       shift_date s \<noteq> monday + int dayIndex))"
proof -
  have nonempty: "ps \<noteq> [] \<Longrightarrow> shufflePatterns choices d r ps \<noteq> []" for d r ps
    using shuffle by (metis length_0_conv)
  obtain schedule where s: "generateWeekSchedule choices g monday weekNumber = Inr schedule"
    and f: "\<forall>s \<in> set (shifts schedule). \<exists>d < 6. shift_date s = monday + int d
                  \<and> \<not> length (availablePharmacists g (dayNames ! d) weekNumber) < 3"
    using generateWeekSchedule_ok [OF nonempty, of g monday weekNumber] by blast
  have r: "\<forall>s \<in> set (shifts (generateWeekScheduleWithRotation createShiftAssignments
                                          g monday weekNumber tracker)).
      \<exists>d < 6. shift_date s = monday + int d
        \<and> \<not> length (availablePharmacists g (dayNames ! d) weekNumber) < 3"
    using rotationDays_shifts [OF active, of createShiftAssignments monday weekNumber
        "\<lparr>ws_shifts = [], ws_weeklyHours = initialWeeklyHours g,
          ws_tracker = tracker, ws_workingDays = initialWorkingDays g\<rparr>" "[0..<6]"]
    by (simp add: generateWeekScheduleWithRotation_def Let_def Bex_def)
  show ?thesis
  proof (intro exI [of _ schedule] conjI s allI impI)
    fix dayIndex :: nat
    assume d: "dayIndex < 6" and a: "length (availablePharmacists g (dayNames ! dayIndex) weekNumber) < 3"
    show "\<forall>s \<in> set (shifts schedule). shift_date s \<noteq> monday + int dayIndex"
      using f a by fastforce
    show "\<forall>s \<in> set (shifts (generateWeekScheduleWithRotation createShiftAssignments
                                          g monday weekNumber tracker)).
                       shift_date s \<noteq> monday + int dayIndex"
      using r a by fastforce
  qed
qed

section \<open>A week whose Monday is skipped\<close>

lemma threeWorkers_distance:
  "freeDayDistance d (partTimer ''w1'' 20 ''Monday'') = \<bar>0 - findIndex (\<lambda>x. x = d) dayOrder\<bar>"
  "freeDayDistance d (partTimer ''w2'' 20 ''Sunday'') = \<bar>6 - findIndex (\<lambda>x. x = d) dayOrder\<bar>"
  "freeDayDistance d (partTimer ''w3'' 20 ''Sunday'') = \<bar>6 - findIndex (\<lambda>x. x = d) dayOrder\<bar>"
  by (simp_all add: freeDayDistance_def sortFreeDay_def partTimer_def dayOrder_def Let_def)

lemma threeWorkers_dayIndex:
  "findIndex (\<lambda>x. x = ''Monday'') dayOrder = 0"
  "findIndex (\<lambda>x. x = ''Tuesday'') dayOrder = 1"
  "findIndex (\<lambda>x. x = ''Wednesday'') dayOrder = 2"
  "findIndex (\<lambda>x. x = ''Thursday'') dayOrder = 3"
  "findIndex (\<lambda>x. x = ''Friday'') dayOrder = 4"
  "findIndex (\<lambda>x. x = ''Saturday'') dayOrder = 5"
  by (simp_all add: dayOrder_def Let_def)

lemma partTimer_fields:
  "isFreeDay (partTimer pid h fd) d \<longleftrightarrow> fd = d"
  "hasHoursLeft ledger (partTimer pid 20 fd)"
  "freeSaturdayWeek (partTimer pid h fd) = None"
  "isActive (partTimer pid h fd)"
  "pharmacist_id (partTimer pid h fd) = pid"
  "weeklyHours (partTimer pid h fd) = h"
  by (simp_all add: isFreeDay_def hasHoursLeft_def partTimer_def)

lemma threeWorkers_available:
  "length (getAvailablePharmacists threeWorkers ''Monday'' 0 ledger) = 2"
  "getAvailablePharmacists threeWorkers ''Tuesday'' 0 ledger
   = [partTimer ''w2'' 20 ''Sunday'', partTimer ''w3'' 20 ''Sunday'', partTimer ''w1'' 20 ''Monday'']"
  by (simp_all add: getAvailablePharmacists_def threeWorkers_def partTimer_fields
      threeWorkers_distance threeWorkers_dayIndex)

lemma threeWorkers_tuesday:
  "map shift_date (ws_shifts (rotationDay morningAssigner threeWorkers 102 0 st 1))
   = map shift_date (ws_shifts st) @ [103, 103, 103]"
  by (simp add: rotationDay_def dayNames_def threeWorkers_available generateDayShifts_def
      morningAssigner_def synthesizeShifts_def synthesizeStep_def synthesize_def
      synthesizeMorning_def calculateShiftHours_def timeToMinutes_literals newShift_def Let_def)


lemma rotationDay_keeps:
  "set (ws_shifts st) \<subseteq> set (ws_shifts (rotationDay csa g monday weekNumber st d))"
  by (simp add: rotationDay_def generateDayShifts_def Let_def)

lemma rotationDays_keep:
  "set (ws_shifts st) \<subseteq> set (ws_shifts (foldl (rotationDay csa g monday weekNumber) st days))"
proof (induction days arbitrary: st)
  case Nil
  then show ?case by simp
next
  case (Cons d days)
  show ?case
    using rotationDay_keeps [of st csa g monday weekNumber d]
      Cons.IH [of "rotationDay csa g monday weekNumber st d"]
    by auto
qed

lemma threeWorkers_monday:
  "rotationDay morningAssigner threeWorkers 102 0 st 0 = st"
  by (simp add: rotationDay_def dayNames_def threeWorkers_available Let_def)

lemma threeWorkers_rotation_tuesday:
  "103 \<in> shift_date ` set (shifts (generateWeekScheduleWithRotation morningAssigner
                                     threeWorkers 102 0 []))"
proof -
  define st0 where "st0 = \<lparr>ws_shifts = [], ws_weeklyHours = initialWeeklyHours threeWorkers,
                     ws_tracker = [], ws_workingDays = initialWorkingDays threeWorkers\<rparr>"
  define st1 where "st1 = rotationDay morningAssigner threeWorkers 102 0 st0 1"
  have "map shift_date (ws_shifts st1) = [103, 103, 103]"
    using threeWorkers_tuesday [of st0] by (simp add: st1_def st0_def)
  then have "103 \<in> shift_date ` set (ws_shifts st1)"
    by (metis image_set list.set_intros(1))
  moreover have "set (ws_shifts st1)
      \<subseteq> set (ws_shifts (foldl (rotationDay morningAssigner threeWorkers 102 0) st1 [2, 3, 4, 5]))"
    by (rule rotationDays_keep)
  moreover have "shifts (generateWeekScheduleWithRotation morningAssigner threeWorkers 102 0 [])
      = ws_shifts (foldl (rotationDay morningAssigner threeWorkers 102 0) st1 [2, 3, 4, 5])"
    by (simp add: generateWeekScheduleWithRotation_def upt_six threeWorkers_monday st1_def st0_def
        Let_def del: foldl_Cons)
       (simp add: threeWorkers_monday)
  ultimately show ?thesis by auto
qed

lemma threeWorkers_monday_available:
  "length (availablePharmacists threeWorkers (dayNames ! 0) 0) = 2"
  by (simp add: availablePharmacists_def availableOn_def dayNames_def threeWorkers_def
      partTimer_fields)

theorem week_generation_skips_short_days_witness:
  "length (availablePharmacists threeWorkers (dayNames ! 0) 0) = 2
   \<and> (\<exists>schedule. generateWeekSchedule idChoices threeWorkers 102 0 = Inr schedule
         \<and> 102 \<notin> shift_date ` set (shifts schedule))
   \<and> 102 \<notin> shift_date ` set (shifts (generateWeekScheduleWithRotation morningAssigner
                                        threeWorkers 102 0 []))
   \<and> 103 \<in> shift_date ` set (shifts (generateWeekScheduleWithRotation morningAssigner
                                        threeWorkers 102 0 []))"
proof -
  have shuffle: "\<forall>d r ps. length (shufflePatterns idChoices d r ps) = length ps"
    by (simp add: idChoices_def)
  have active: "\<forall>p \<in> set (pharmacists threeWorkers). isActive p"
    by (simp add: threeWorkers_def partTimer_fields)
  obtain schedule where s: "generateWeekSchedule idChoices threeWorkers 102 0 = Inr schedule"
    and d: "\<forall>dayIndex < 6.
              length (availablePharmacists threeWorkers (dayNames ! dayIndex) 0) < 3 \<longrightarrow>
              (\<forall>s \<in> set (shifts schedule). shift_date s \<noteq> 102 + int dayIndex)
              \<and> (\<forall>s \<in> set (shifts (generateWeekScheduleWithRotation morningAssigner
                                       threeWorkers 102 0 [])).
                    shift_date s \<noteq> 102 + int dayIndex)"
    using week_generation_skips_short_days [OF shuffle active, of 102 0 morningAssigner "[]"]
    by blast
  have m: "(\<forall>s \<in> set (shifts schedule). shift_date s \<noteq> 102)
         \<and> (\<forall>s \<in> set (shifts (generateWeekScheduleWithRotation morningAssigner
                                       threeWorkers 102 0 [])). shift_date s \<noteq> 102)"
    using d [rule_format, of 0] threeWorkers_monday_available by simp
  from m have a: "102 \<notin> shift_date ` set (shifts schedule)"
    and b: "102 \<notin> shift_date ` set (shifts (generateWeekScheduleWithRotation morningAssigner
                                        threeWorkers 102 0 []))"
    by auto
  from s a have "\<exists>schedule. generateWeekSchedule idChoices threeWorkers 102 0 = Inr schedule
         \<and> 102 \<notin> shift_date ` set (shifts schedule)"
    by blast
  with threeWorkers_monday_available b threeWorkers_rotation_tuesday show ?thesis
    by (intro conjI)
qed

section \<open>Minimum duration of synthesized shifts\<close>






section \<open>A generated schedule with a one-hour morning shift\<close>

















section \<open>The ledger of working days in Scenario B\<close>


end
